theory Spec2Isabelle
  imports Complex_Main
begin

section \<open>Values of the Python program\<close>

text \<open>
  A float64 value is a finite number, an infinity or NaN. Every finite double is a dyadic
  rational, so the finite values are carried as \<open>rat\<close>. Signed zeros are not distinguished.
  The result of an arithmetic operation on finite operands is the exact result passed through
  the platform's rounding \<open>r :: rat \<Rightarrow> fl\<close> (round to nearest, overflow to an infinity), which
  is a parameter of the model: nothing below depends on how it rounds unless a theorem says so.
\<close>

datatype fl = Fin rat | PInf | NInf | NaN

fun isfinite :: "fl \<Rightarrow> bool" where
  "isfinite (Fin q) = True"
| "isfinite x = False"

fun isnan :: "fl \<Rightarrow> bool" where
  "isnan NaN = True"
| "isnan x = False"

fun fneg :: "fl \<Rightarrow> fl" where
  "fneg (Fin q) = Fin (- q)"
| "fneg PInf = NInf"
| "fneg NInf = PInf"
| "fneg NaN = NaN"

fun fadd :: "(rat \<Rightarrow> fl) \<Rightarrow> fl \<Rightarrow> fl \<Rightarrow> fl" where
  "fadd r NaN y = NaN"
| "fadd r x NaN = NaN"
| "fadd r PInf NInf = NaN"
| "fadd r NInf PInf = NaN"
| "fadd r PInf y = PInf"
| "fadd r x PInf = PInf"
| "fadd r NInf y = NInf"
| "fadd r x NInf = NInf"
| "fadd r (Fin a) (Fin b) = r (a + b)"

definition fsub :: "(rat \<Rightarrow> fl) \<Rightarrow> fl \<Rightarrow> fl \<Rightarrow> fl" where
  "fsub r x y = fadd r x (fneg y)"

text \<open>The sign of a value that is not NaN, with zero counted as positive (no signed zeros).\<close>

fun fpos :: "fl \<Rightarrow> bool" where
  "fpos (Fin q) = (0 \<le> q)"
| "fpos PInf = True"
| "fpos x = False"

definition finf :: "bool \<Rightarrow> fl" where
  "finf p = (if p then PInf else NInf)"

fun fmul :: "(rat \<Rightarrow> fl) \<Rightarrow> fl \<Rightarrow> fl \<Rightarrow> fl" where
  "fmul r NaN y = NaN"
| "fmul r x NaN = NaN"
| "fmul r (Fin a) (Fin b) = r (a * b)"
| "fmul r (Fin a) y = (if a = 0 then NaN else finf (fpos (Fin a) = fpos y))"
| "fmul r x (Fin b) = (if b = 0 then NaN else finf (fpos x = fpos (Fin b)))"
| "fmul r x y = finf (fpos x = fpos y)"

text \<open>
  Division as NumPy's float64 does it: a zero divisor gives an infinity or NaN (with a
  warning), never an exception.
\<close>

fun fdiv :: "(rat \<Rightarrow> fl) \<Rightarrow> fl \<Rightarrow> fl \<Rightarrow> fl" where
  "fdiv r NaN y = NaN"
| "fdiv r x NaN = NaN"
| "fdiv r (Fin a) (Fin b) =
     (if b = 0 then (if a = 0 then NaN else finf (0 < a)) else r (a / b))"
| "fdiv r (Fin a) y = Fin 0"
| "fdiv r x (Fin b) = finf (fpos x = fpos (Fin b))"
| "fdiv r x y = NaN"

text \<open>The order of the values that are not NaN.\<close>

fun fle :: "fl \<Rightarrow> fl \<Rightarrow> bool" where
  "fle NInf y = True"
| "fle x PInf = True"
| "fle (Fin a) (Fin b) = (a \<le> b)"
| "fle x y = False"

definition fmin2 :: "fl \<Rightarrow> fl \<Rightarrow> fl" where
  "fmin2 x y = (if fle x y then x else y)"

definition fmax2 :: "fl \<Rightarrow> fl \<Rightarrow> fl" where
  "fmax2 x y = (if fle x y then y else x)"

text \<open>The exceptions the program and its libraries raise.\<close>

datatype error =
    ValueError string
  | TypeError
  | AttributeError
  | KeyError string
  | IndexError
  | OverflowError
  | CRSError int

definition ebind :: "error + 'a \<Rightarrow> ('a \<Rightarrow> error + 'b) \<Rightarrow> error + 'b" where
  "ebind m f = (case m of Inl e \<Rightarrow> Inl e | Inr x \<Rightarrow> f x)"

text \<open>An n-dimensional array: its shape and its elements in row-major order.\<close>

record ndarray =
  shape :: "nat list"
  elems :: "fl list"

text \<open>
  The decoded tree is a nest of Python objects: dictionaries with string keys (association
  lists, the first binding of a key wins), lists, strings, numbers, None and decoded arrays.
\<close>

datatype pyval =
    PNone
  | PStr string
  | PFloat fl
  | PInt int
  | PList "pyval list"
  | PDict "(string \<times> pyval) list"
  | PArr "nat list" "fl list"

text \<open>
  The libraries the program calls, as parameters: the rounding of float64 arithmetic, the
  cast to float32, Python's parsing of numeric strings, NumPy's conversion of an object that
  is not an array, wradlib's geometry (per sample), pyproj (\<open>None\<close> for an EPSG code it
  rejects, else the transformation of one point; pyproj's \<open>transform\<close> does not raise on a
  point outside the projection's domain, it returns infinities) and the nearest-neighbour
  query of SciPy's k-d tree.
\<close>

record libs =
  rnd :: "rat \<Rightarrow> fl"
  to_f32 :: "fl \<Rightarrow> fl"
  parse_float :: "string \<Rightarrow> fl option"
  parse_int :: "string \<Rightarrow> int option"
  asarray_obj :: "pyval \<Rightarrow> ndarray option"
  deg2rad :: "fl \<Rightarrow> fl"
  spherical_to_xyz :: "fl \<Rightarrow> fl \<Rightarrow> fl \<Rightarrow> fl \<times> fl \<times> fl \<Rightarrow> fl \<times> fl \<times> fl"
  from_epsg :: "int \<Rightarrow> (fl \<Rightarrow> fl \<Rightarrow> fl \<times> fl) option"
  kd_query :: "(fl \<times> fl) list \<Rightarrow> fl \<times> fl \<Rightarrow> nat"

section \<open>Python's dynamic operations\<close>

text \<open>\<open>x.get(k, dflt)\<close>: only a dictionary has the method.\<close>

fun py_get :: "pyval \<Rightarrow> string \<Rightarrow> pyval \<Rightarrow> error + pyval" where
  "py_get (PDict d) k dflt = Inr (case map_of d k of None \<Rightarrow> dflt | Some v \<Rightarrow> v)"
| "py_get x k dflt = Inl AttributeError"

fun substr :: "string \<Rightarrow> string \<Rightarrow> bool" where
  "substr k [] = (k = [])"
| "substr k (c # cs) = (take (length k) (c # cs) = k \<or> substr k cs)"

text \<open>
  \<open>k in x\<close> for a string \<open>k\<close>: a key of a dictionary, an element of a list (an array in the
  list is never equal to a string), a substring of a string, no element of a numeric array;
  the other objects are not iterable.
\<close>

fun py_contains :: "pyval \<Rightarrow> string \<Rightarrow> error + bool" where
  "py_contains (PDict d) k = Inr (map_of d k \<noteq> None)"
| "py_contains (PList xs) k = Inr (PStr k \<in> set xs)"
| "py_contains (PStr s) k = Inr (substr k s)"
| "py_contains (PArr sh xs) k = Inr False"
| "py_contains x k = Inl TypeError"

text \<open>\<open>x[k]\<close> for a string \<open>k\<close>.\<close>

fun py_getitem :: "pyval \<Rightarrow> string \<Rightarrow> error + pyval" where
  "py_getitem (PDict d) k = (case map_of d k of None \<Rightarrow> Inl (KeyError k) | Some v \<Rightarrow> Inr v)"
| "py_getitem (PArr sh xs) k = Inl IndexError"
| "py_getitem x k = Inl TypeError"

text \<open>\<open>x[0]\<close>.\<close>

fun py_getitem0 :: "pyval \<Rightarrow> error + pyval" where
  "py_getitem0 (PList []) = Inl IndexError"
| "py_getitem0 (PList (x # xs)) = Inr x"
| "py_getitem0 (PStr []) = Inl IndexError"
| "py_getitem0 (PStr (c # cs)) = Inr (PStr [c])"
| "py_getitem0 (PDict d) = Inl (KeyError ''0'')"
| "py_getitem0 (PArr [] xs) = Inl IndexError"
| "py_getitem0 (PArr (n # sh) xs) =
     (if n = 0 then Inl IndexError else Inr (PArr sh (take (prod_list sh) xs)))"
| "py_getitem0 x = Inl TypeError"

text \<open>The elements \<open>for a in x\<close> visits.\<close>

fun py_iter :: "pyval \<Rightarrow> error + pyval list" where
  "py_iter (PList xs) = Inr xs"
| "py_iter (PStr s) = Inr (map (\<lambda>c. PStr [c]) s)"
| "py_iter (PDict d) = Inr (map PStr (remdups (map fst d)))"
| "py_iter (PArr [] xs) = Inl TypeError"
| "py_iter (PArr (n # sh) xs) =
     Inr (map (\<lambda>i. if sh = [] then PFloat (xs ! i)
                    else PArr sh (take (prod_list sh) (drop (i * prod_list sh) xs))) [0..<n])"
| "py_iter x = Inl TypeError"

text \<open>\<open>float(x)\<close>.\<close>

fun py_float :: "libs \<Rightarrow> pyval \<Rightarrow> error + fl" where
  "py_float L (PFloat x) = Inr x"
| "py_float L (PInt i) =
     (case rnd L (of_int i) of Fin q \<Rightarrow> Inr (Fin q) | y \<Rightarrow> Inl OverflowError)"
| "py_float L (PStr s) =
     (case parse_float L s of
        None \<Rightarrow> Inl (ValueError ''could not convert string to float'')
      | Some x \<Rightarrow> Inr x)"
| "py_float L (PArr sh xs) = (case xs of [x] \<Rightarrow> Inr x | ys \<Rightarrow> Inl TypeError)"
| "py_float L x = Inl TypeError"

text \<open>\<open>int(x)\<close>: a float is truncated towards zero.\<close>

definition trunc :: "rat \<Rightarrow> int" where
  "trunc q = (if 0 \<le> q then \<lfloor>q\<rfloor> else \<lceil>q\<rceil>)"

fun int_of_fl :: "fl \<Rightarrow> error + int" where
  "int_of_fl (Fin q) = Inr (trunc q)"
| "int_of_fl NaN = Inl (ValueError ''cannot convert float NaN to integer'')"
| "int_of_fl x = Inl OverflowError"

fun py_int :: "libs \<Rightarrow> pyval \<Rightarrow> error + int" where
  "py_int L (PInt i) = Inr i"
| "py_int L (PFloat x) = int_of_fl x"
| "py_int L (PStr s) =
     (case parse_int L s of
        None \<Rightarrow> Inl (ValueError ''invalid literal for int() with base 10'')
      | Some i \<Rightarrow> Inr i)"
| "py_int L (PArr sh xs) = (case xs of [x] \<Rightarrow> int_of_fl x | ys \<Rightarrow> Inl TypeError)"
| "py_int L x = Inl TypeError"

text \<open>
  \<open>np.asarray(x)\<close>: an array is returned as it is; another object is converted by NumPy,
  which refuses nested sequences that are not rectangular.
\<close>

fun np_asarray :: "libs \<Rightarrow> pyval \<Rightarrow> error + ndarray" where
  "np_asarray L (PArr sh xs) = Inr \<lparr>shape = sh, elems = xs\<rparr>"
| "np_asarray L x =
     (case asarray_obj L x of
        None \<Rightarrow> Inl (ValueError ''setting an array element with a sequence'')
      | Some a \<Rightarrow> Inr a)"

section \<open>NumPy's array constructors and reductions\<close>

text \<open>
  \<open>np.arange(start, stop, step)\<close> on floats: the length is the ceiling of
  \<open>(stop - start) / step\<close> (a ValueError when that is NaN, infinite or no machine integer,
  empty when it is not positive); element 0 is \<open>start\<close>, element 1 is \<open>start + step\<close> and element
  \<open>i\<close> is \<open>start + i * delta\<close> with \<open>delta\<close> the difference of the first two.
\<close>

definition max_intp :: int where
  "max_intp = 2 ^ 63 - 1"

definition arange_elem :: "(rat \<Rightarrow> fl) \<Rightarrow> fl \<Rightarrow> fl \<Rightarrow> nat \<Rightarrow> fl" where
  "arange_elem r start step i =
     (if i = 0 then start
      else if i = 1 then fadd r start step
      else fadd r start (fmul r (r (of_nat i)) (fsub r (fadd r start step) start)))"

definition arange :: "(rat \<Rightarrow> fl) \<Rightarrow> fl \<Rightarrow> fl \<Rightarrow> fl \<Rightarrow> error + fl list" where
  "arange r start stop step =
     (case fdiv r (fsub r stop start) step of
        NaN \<Rightarrow> Inl (ValueError ''arange: cannot compute length'')
      | PInf \<Rightarrow> Inl (ValueError ''Maximum allowed size exceeded'')
      | NInf \<Rightarrow> Inl (ValueError ''Maximum allowed size exceeded'')
      | Fin q \<Rightarrow>
          if \<lceil>q\<rceil> < - max_intp - 1 \<or> max_intp < \<lceil>q\<rceil>
          then Inl (ValueError ''Maximum allowed size exceeded'')
          else Inr (map (arange_elem r start step) [0..<nat \<lceil>q\<rceil>]))"

text \<open>\<open>np.arange(n, dtype=float)\<close> for an integer \<open>n\<close>: empty when \<open>n\<close> is not positive.\<close>

definition arange_int :: "(rat \<Rightarrow> fl) \<Rightarrow> int \<Rightarrow> fl list" where
  "arange_int r n = map (\<lambda>i. r (of_nat i)) [0..<nat n]"

text \<open>\<open>np.linspace(start, stop, num, endpoint=False)\<close>.\<close>

definition linspace :: "(rat \<Rightarrow> fl) \<Rightarrow> fl \<Rightarrow> fl \<Rightarrow> nat \<Rightarrow> fl list" where
  "linspace r start stop num =
     (let delta = fsub r stop start;
          step = (if 0 < num then fdiv r delta (r (of_nat num)) else NaN)
      in map (\<lambda>i. fadd r
                 (if step = Fin 0 then fmul r (fdiv r (r (of_nat i)) (r (of_nat num))) delta
                  else fmul r (r (of_nat i)) step)
                 start) [0..<num])"

text \<open>
  \<open>np.nanmin\<close> and \<open>np.nanmax\<close> over all elements: NaN is skipped, an infinity is not; an
  array of NaN only gives NaN (with a warning), an empty array is an error.
\<close>

definition nanmin :: "fl list \<Rightarrow> error + fl" where
  "nanmin xs =
     (if xs = [] then Inl (ValueError ''zero-size array to reduction operation fmin'')
      else case filter (\<lambda>x. \<not> isnan x) xs of
             [] \<Rightarrow> Inr NaN
           | y # ys \<Rightarrow> Inr (foldl fmin2 y ys))"

definition nanmax :: "fl list \<Rightarrow> error + fl" where
  "nanmax xs =
     (if xs = [] then Inl (ValueError ''zero-size array to reduction operation fmax'')
      else case filter (\<lambda>x. \<not> isnan x) xs of
             [] \<Rightarrow> Inr NaN
           | y # ys \<Rightarrow> Inr (foldl fmax2 y ys))"

text \<open>
  \<open>np.meshgrid(xs, ys)\<close>: two arrays of shape \<open>(len(ys), len(xs))\<close>, the first repeating
  \<open>xs\<close> in every row, the second constant along each row.
\<close>

definition meshgrid :: "fl list \<Rightarrow> fl list \<Rightarrow> ndarray \<times> ndarray" where
  "meshgrid xs ys =
     (\<lparr>shape = [length ys, length xs], elems = concat (map (\<lambda>y. xs) ys)\<rparr>,
      \<lparr>shape = [length ys, length xs], elems = concat (map (\<lambda>y. map (\<lambda>x. y) xs) ys)\<rparr>)"

section \<open>Datasets\<close>

text \<open>
  The polar dataset \<open>read_azi\<close> builds: one data variable (its name, values and
  attributes) on the dimensions (azimuth, range), the two coordinates and the global
  attributes.
  \<open>polar_dataset_to_lonlat\<close> is to add the auxiliary coordinates lon, lat and alt.
\<close>

record polar_ds =
  ds_name :: pyval
  ds_values :: ndarray
  ds_var_attrs :: "(string \<times> pyval) list"
  ds_azimuth :: "fl list"
  ds_range :: "fl list"
  ds_attrs :: "(string \<times> pyval) list"

record lonlat_ds = polar_ds +
  ds_lon :: ndarray
  ds_lat :: ndarray
  ds_alt :: ndarray

section \<open>src/georef/polar.py\<close>

text \<open>
  wradlib's \<open>georef.spherical_to_xyz(r, phi, theta, site)\<close> has four required positional
  parameters and returns a pair, the coordinates and their coordinate system. The argument
  \<open>site\<close> is \<open>None\<close> here for a call that passes three arguments only: Python raises
  TypeError and the body does not run.
\<close>

definition georef_spherical_to_xyz ::
  "libs \<Rightarrow> ndarray \<Rightarrow> ndarray \<Rightarrow> fl \<Rightarrow> (fl \<times> fl \<times> fl) option
     \<Rightarrow> error + (fl \<times> fl \<times> fl) list \<times> string" where
  "georef_spherical_to_xyz L r phi theta site =
     (case site of
        None \<Rightarrow> Inl TypeError
      | Some s \<Rightarrow>
          Inr (map (\<lambda>(a, b). spherical_to_xyz L a b theta s) (zip (elems r) (elems phi)),
               ''aeqd''))"

text \<open>
  \<open>polar_to_xyz\<close>: line 14 calls \<open>georef.spherical_to_xyz(rr, aa, el)\<close>, without a site.
  Line 15 indexes the result, a pair, at 0, 1 and 2: had the call returned, \<open>xyz[2]\<close> would
  be an IndexError.
\<close>

definition polar_to_xyz ::
  "libs \<Rightarrow> fl list \<Rightarrow> fl list \<Rightarrow> fl \<Rightarrow> error + ndarray \<times> ndarray \<times> ndarray" where
  "polar_to_xyz L ranges_m azimuth_deg elev_deg =
     (let (rr, aa) = meshgrid ranges_m (map (deg2rad L) azimuth_deg);
          el = deg2rad L elev_deg
      in ebind (georef_spherical_to_xyz L rr aa el None) (\<lambda>xyz. Inl IndexError))"

text \<open>
  \<open>xyz_to_lonlat\<close>: the module \<open>wradlib.georef\<close> has no attribute \<open>xyz_to_lonlatalt\<close>, so
  line 23 raises AttributeError when it looks the function up.
\<close>

definition georef_xyz_to_lonlatalt ::
  "error + (ndarray \<Rightarrow> ndarray \<Rightarrow> ndarray \<Rightarrow> fl \<Rightarrow> fl \<Rightarrow> fl
     \<Rightarrow> ndarray \<times> ndarray \<times> ndarray)" where
  "georef_xyz_to_lonlatalt = Inl AttributeError"

definition xyz_to_lonlat ::
  "ndarray \<Rightarrow> ndarray \<Rightarrow> ndarray \<Rightarrow> fl \<Rightarrow> fl \<Rightarrow> fl
     \<Rightarrow> error + ndarray \<times> ndarray \<times> ndarray" where
  "xyz_to_lonlat x y z radar_lon radar_lat radar_alt_m =
     ebind georef_xyz_to_lonlatalt (\<lambda>f. Inr (f x y z radar_lon radar_lat radar_alt_m))"

text \<open>
  \<open>ds.assign_coords\<close> of an array on the dimensions (azimuth, range): xarray refuses an
  array whose shape is not the dataset's sizes of these dimensions.
\<close>

definition check_coord :: "polar_ds \<Rightarrow> ndarray \<Rightarrow> error + ndarray" where
  "check_coord ds arr =
     (if shape arr = [length (ds_azimuth ds), length (ds_range ds)] then Inr arr
      else Inl (ValueError ''conflicting sizes for dimension''))"

definition polar_dataset_to_lonlat :: "libs \<Rightarrow> polar_ds \<Rightarrow> fl \<Rightarrow> fl \<Rightarrow> fl \<Rightarrow> error + lonlat_ds" where
  "polar_dataset_to_lonlat L ds radar_lon radar_lat radar_alt_m =
     ebind (py_float L (case map_of (ds_attrs ds) ''elevation_deg'' of
                          None \<Rightarrow> PFloat (Fin 0) | Some v \<Rightarrow> v)) (\<lambda>elev.
     let ranges = ds_range ds;
         az = ds_azimuth ds
     in ebind (polar_to_xyz L ranges az elev) (\<lambda>(x, y, z).
        ebind (xyz_to_lonlat x y z radar_lon radar_lat radar_alt_m) (\<lambda>(lon, lat, alt).
        ebind (check_coord ds lon) (\<lambda>lon.
        ebind (check_coord ds lat) (\<lambda>lat.
        ebind (check_coord ds alt) (\<lambda>alt.
        Inr (polar_ds.extend ds \<lparr>ds_lon = lon, ds_lat = lat, ds_alt = alt\<rparr>)))))))"

section \<open>src/io/read_azi.py\<close>

definition extract_slice :: "pyval \<Rightarrow> error + pyval" where
  "extract_slice tree =
     ebind (py_get tree ''volume'' PNone) (\<lambda>vol.
     if vol = PNone then Inl (ValueError ''Estructura Rainbow inesperada: falta 'volume'.'')
     else
     ebind (py_get vol ''scan'' PNone) (\<lambda>scan.
     if scan = PNone then Inl (ValueError ''Estructura Rainbow inesperada: falta 'scan'.'')
     else
     ebind (py_get scan ''slice'' PNone) (\<lambda>slc.
     if slc = PNone then Inl (ValueError ''Estructura Rainbow inesperada: falta 'slice'.'')
     else Inr slc)))"

text \<open>\<open>data.shape[-1]\<close> and \<open>data.shape[0]\<close>: an IndexError on a 0-dimensional array.\<close>

definition shape_last :: "ndarray \<Rightarrow> error + nat" where
  "shape_last a = (if shape a = [] then Inl IndexError else Inr (last (shape a)))"

definition shape_first :: "ndarray \<Rightarrow> error + nat" where
  "shape_first a = (case shape a of [] \<Rightarrow> Inl IndexError | n # ns \<Rightarrow> Inr n)"

text \<open>\<open>[f(a) for a in xs]\<close>: the first exception ends the comprehension.\<close>

fun emap :: "('a \<Rightarrow> error + 'b) \<Rightarrow> 'a list \<Rightarrow> error + 'b list" where
  "emap f [] = Inr []"
| "emap f (x # xs) = ebind (f x) (\<lambda>y. ebind (emap f xs) (\<lambda>ys. Inr (y # ys)))"

text \<open>
  The number of bins (lines 63 to 68). The test \<open>"rays" in slc and "ray" in slc["rays"]\<close>
  stops at its first false part. In the call \<open>ray.get("@bins", data.shape[-1])\<close> the method is
  looked up before the default is evaluated, and the default is evaluated whether or not the
  key is there.
\<close>

definition n_rng_of :: "libs \<Rightarrow> pyval \<Rightarrow> ndarray \<Rightarrow> error + int" where
  "n_rng_of L slc data =
     ebind (py_contains slc ''rays'') (\<lambda>has_rays.
     ebind (if has_rays then ebind (py_getitem slc ''rays'') (\<lambda>rays. py_contains rays ''ray'')
            else Inr False) (\<lambda>has_ray.
     if has_ray then
       ebind (py_getitem slc ''rays'') (\<lambda>rays.
       ebind (py_getitem rays ''ray'') (\<lambda>ray.
       ebind (py_getitem0 ray) (\<lambda>ray0.
       case ray0 of
         PDict d \<Rightarrow>
           ebind (shape_last data) (\<lambda>n.
           ebind (py_get ray0 ''@bins'' (PInt (int n))) (py_int L))
       | x \<Rightarrow> Inl AttributeError)))
     else ebind (shape_last data) (\<lambda>n. Inr (int n))))"

text \<open>The azimuths (lines 71 to 78).\<close>

definition az_deg_of :: "libs \<Rightarrow> pyval \<Rightarrow> ndarray \<Rightarrow> error + fl list" where
  "az_deg_of L slc data =
     ebind (py_contains slc ''angles'') (\<lambda>has_angles.
     ebind (if has_angles then ebind (py_getitem slc ''angles'') (\<lambda>an. py_contains an ''a'')
            else Inr False) (\<lambda>has_a.
     if has_a then
       ebind (py_getitem slc ''angles'') (\<lambda>an.
       ebind (py_getitem an ''a'') (\<lambda>az_list.
       ebind (py_iter az_list) (emap (py_float L))))
     else ebind (shape_first data) (\<lambda>n_az. Inr (linspace (rnd L) (Fin 0) (Fin 360) n_az))))"

record meta =
  elevation_deg :: fl
  r0_m :: fl
  dr_m :: fl

definition get_data_and_axes ::
  "libs \<Rightarrow> pyval \<Rightarrow> error + (ndarray \<times> fl list \<times> fl list \<times> meta)" where
  "get_data_and_axes L slc =
     ebind (py_contains slc ''data'') (\<lambda>has_data.
     if \<not> has_data then Inl (ValueError ''Slice Rainbow sin 'data' decodificado.'')
     else
     ebind (py_getitem slc ''data'') (\<lambda>d.
     ebind (np_asarray L d) (\<lambda>data.
     ebind (ebind (py_get slc ''@elevation'' (PFloat (Fin 0))) (py_float L)) (\<lambda>elev_deg.
     ebind (ebind (py_get slc ''@rstart'' (PFloat (Fin 0))) (py_float L)) (\<lambda>r0.
     ebind (ebind (py_get slc ''@rscale'' (PFloat (Fin 1000))) (py_float L)) (\<lambda>dr.
     ebind (n_rng_of L slc data) (\<lambda>n_rng.
     let ranges_m = map (\<lambda>x. fadd (rnd L) r0 (fmul (rnd L) dr x)) (arange_int (rnd L) n_rng)
     in
     ebind (az_deg_of L slc data) (\<lambda>az_deg.
     Inr (data, az_deg, ranges_m,
          \<lparr>elevation_deg = elev_deg, r0_m = r0, dr_m = dr\<rparr>)))))))))"

definition safe_float :: "libs \<Rightarrow> pyval \<Rightarrow> fl" where
  "safe_float L x = (case py_float L x of Inl e \<Rightarrow> NaN | Inr y \<Rightarrow> y)"

text \<open>
  \<open>xr.DataArray(data, dims=(d0, d1), coords=...)\<close>: xarray requires a two-dimensional array
  whose sizes are the lengths of the two coordinates.
\<close>

definition check_dims :: "ndarray \<Rightarrow> fl list \<Rightarrow> fl list \<Rightarrow> error + unit" where
  "check_dims data c0 c1 =
     (if length (shape data) \<noteq> 2
      then Inl (ValueError ''different number of dimensions on data and dims'')
      else if shape data \<noteq> [length c0, length c1]
      then Inl (ValueError ''conflicting sizes for dimension'')
      else Inr ())"

text \<open>
  \<open>da.to_dataset()\<close>: the array needs a name, the name is a dictionary key (so hashable) and
  must not be the name of one of the array's coordinates.
\<close>

fun to_dataset :: "pyval \<Rightarrow> string list \<Rightarrow> error + unit" where
  "to_dataset PNone coords =
     Inl (ValueError ''unable to convert unnamed DataArray to a Dataset'')"
| "to_dataset (PList xs) coords = Inl TypeError"
| "to_dataset (PDict d) coords = Inl TypeError"
| "to_dataset (PArr sh xs) coords = Inl TypeError"
| "to_dataset (PStr s) coords =
     (if s \<in> set coords
      then Inl (ValueError ''cannot create a Dataset from a DataArray with the same name as one of its coordinates'')
      else Inr ())"
| "to_dataset x coords = Inr ()"

text \<open>
  \<open>read_azi\<close> from the decoded tree on (lines 101 to 137): the check of the file's suffix and
  the decoder, which turn the path into the tree, come before.
\<close>

definition read_azi :: "libs \<Rightarrow> pyval \<Rightarrow> error + polar_ds" where
  "read_azi L tree =
     ebind (extract_slice tree) (\<lambda>slc.
     ebind (get_data_and_axes L slc) (\<lambda>(data, az_deg, ranges_m, meta).
     ebind (py_get slc ''param'' (PDict [])) (\<lambda>param.
     ebind (py_get param ''@units'' (PStr ''dBZ'')) (\<lambda>units.
     ebind (py_get param ''@name'' (PStr ''dBZ'')) (\<lambda>pname.
     ebind (check_dims data az_deg ranges_m) (\<lambda>u.
     ebind (py_get tree ''volume'' (PDict [])) (\<lambda>vol.
     ebind (py_get vol ''sensorinfo'' (PDict [])) (\<lambda>radar_info.
     ebind (py_get radar_info ''@lon'' (PFloat NaN)) (\<lambda>lon.
     ebind (py_get radar_info ''@lat'' (PFloat NaN)) (\<lambda>lat.
     ebind (py_get radar_info ''@alt'' (PFloat NaN)) (\<lambda>alt.
     ebind (to_dataset pname [''azimuth'', ''range'']) (\<lambda>u.
     Inr \<lparr>ds_name = pname, ds_values = data, ds_var_attrs = [(''units'', units)],
          ds_azimuth = az_deg, ds_range = ranges_m,
          ds_attrs =
            [(''source'', PStr ''Rainbow .azi''),
             (''elevation_deg'', PFloat (elevation_deg meta)),
             (''r0_m'', PFloat (r0_m meta)),
             (''dr_m'', PFloat (dr_m meta)),
             (''radar_lon'', PFloat (safe_float L lon)),
             (''radar_lat'', PFloat (safe_float L lat)),
             (''radar_alt_m'', PFloat (safe_float L alt))]\<rparr>))))))))))))"

section \<open>src/georef/gridding.py\<close>

record grid_ds =
  g_name :: pyval
  g_out :: ndarray
  g_x :: "fl list"
  g_y :: "fl list"
  g_var_attrs :: "(string \<times> pyval) list"
  g_attrs :: "(string \<times> pyval) list"

text \<open>The decimal numeral of an integer, as an f-string prints it.\<close>

fun str_nat :: "nat \<Rightarrow> string" where
  "str_nat n =
     (if n < 10 then [''0123456789'' ! n]
      else str_nat (n div 10) @ [''0123456789'' ! (n mod 10)])"

definition str_int :: "int \<Rightarrow> string" where
  "str_int i = (if i < 0 then CHR ''-'' # str_nat (nat (- i)) else str_nat (nat i))"

text \<open>
  The candidates: the samples whose value and projected coordinates are all finite, in
  row-major order (\<open>X[mask].ravel()\<close>, \<open>Y[mask].ravel()\<close>, \<open>v[mask].ravel()\<close>).
\<close>

definition candidates :: "fl list \<Rightarrow> fl list \<Rightarrow> fl list \<Rightarrow> (fl \<times> fl \<times> fl) list" where
  "candidates v X Y =
     filter (\<lambda>(a, x, y). isfinite a \<and> isfinite x \<and> isfinite y) (zip v (zip X Y))"

text \<open>
  The nearest-neighbour pass (lines 52 to 57): the index the tree returns for every cell
  centre of the mesh, the value there cast to float32, and the sentinel where the cast value
  is not finite. An index past the candidates is an IndexError of \<open>vals[idx]\<close>.
\<close>

definition nearest_value :: "libs \<Rightarrow> (fl \<times> fl) list \<Rightarrow> fl list \<Rightarrow> fl \<Rightarrow> fl \<times> fl \<Rightarrow> error + fl" where
  "nearest_value L pts vals nodata q =
     (let idx = kd_query L pts q
      in if idx < length vals
         then (let w = to_f32 L (vals ! idx)
               in Inr (if isfinite w then w else to_f32 L nodata))
         else Inl IndexError)"

text \<open>
  \<open>polar_to_grid_2d\<close>. The dataset has its one data variable unless the variable was named
  lon, lat or alt: \<open>assign_coords\<close> then replaced it by the coordinate of that name, and
  \<open>list(ds_lonlat.data_vars)[0]\<close> is an IndexError. The output array is the mesh of the two
  axes in row-major order, one row per \<open>y\<close>.
\<close>

text \<open>\<open>t.transform(lon, lat)\<close>: the projection of every sample, as two arrays.\<close>

definition transform :: "(fl \<Rightarrow> fl \<Rightarrow> fl \<times> fl) \<Rightarrow> fl list \<Rightarrow> fl list \<Rightarrow> fl list \<times> fl list" where
  "transform t lon lat =
     (map (\<lambda>(a, b). fst (t a b)) (zip lon lat), map (\<lambda>(a, b). snd (t a b)) (zip lon lat))"

definition polar_to_grid_2d ::
  "libs \<Rightarrow> lonlat_ds \<Rightarrow> int \<Rightarrow> fl \<Rightarrow> fl \<Rightarrow> fl \<Rightarrow> fl \<Rightarrow> error + grid_ds" where
  "polar_to_grid_2d L ds_lonlat epsg dx dy buffer_m nodata =
     (if ds_name ds_lonlat \<in> {PStr ''lon'', PStr ''lat'', PStr ''alt''} then Inl IndexError
      else
      let varname = ds_name ds_lonlat;
          v = elems (ds_values ds_lonlat);
          lon = elems (ds_lon ds_lonlat);
          lat = elems (ds_lat ds_lonlat)
      in
      case from_epsg L epsg of
        None \<Rightarrow> Inl (CRSError epsg)
      | Some t \<Rightarrow>
      let (X, Y) = transform t lon lat
      in
      ebind (nanmin X) (\<lambda>xmin. let x0 = fsub (rnd L) xmin buffer_m in
      ebind (nanmax X) (\<lambda>xmax. let x1 = fadd (rnd L) xmax buffer_m in
      ebind (nanmin Y) (\<lambda>ymin. let y0 = fsub (rnd L) ymin buffer_m in
      ebind (nanmax Y) (\<lambda>ymax. let y1 = fadd (rnd L) ymax buffer_m in
      ebind (arange (rnd L) x0 (fadd (rnd L) x1 dx) dx) (\<lambda>xs.
      ebind (arange (rnd L) y0 (fadd (rnd L) y1 dy) dy) (\<lambda>ys.
      let cands = candidates v X Y;
          pts = map snd cands;
          vals = map fst cands
      in
      ebind (if pts = [] then Inr (replicate (length ys * length xs) (to_f32 L nodata))
             else (let (XX, YY) = meshgrid xs ys
                   in emap (nearest_value L pts vals nodata) (zip (elems XX) (elems YY))))
        (\<lambda>out.
      ebind (to_dataset varname [''x'', ''y'']) (\<lambda>u.
      Inr \<lparr>g_name = varname,
           g_out = \<lparr>shape = [length ys, length xs], elems = out\<rparr>,
           g_x = xs, g_y = ys,
           g_var_attrs =
             [(''units'', case map_of (ds_var_attrs ds_lonlat) ''units'' of
                            None \<Rightarrow> PStr [] | Some u \<Rightarrow> u)],
           g_attrs =
             [(''crs'', PStr (''EPSG:'' @ str_int epsg)),
              (''method'', PStr ''nearest (K=1)''),
              (''nodata'', PFloat nodata)]\<rparr>)))))))))"

section \<open>What a slice declares\<close>

text \<open>
  The entry of a mapping under a key, as \<open>x.get(k)\<close> followed by a test against None sees
  it: an entry that holds None is as good as absent, and so is any entry of an object that is
  not a mapping.
\<close>

definition lookup :: "pyval \<Rightarrow> string \<Rightarrow> pyval option" where
  "lookup x k =
     (case x of
        PDict d \<Rightarrow> (case map_of d k of Some PNone \<Rightarrow> None | r \<Rightarrow> r)
      | y \<Rightarrow> None)"

fun is_dict :: "pyval \<Rightarrow> bool" where
  "is_dict (PDict d) = True"
| "is_dict x = False"

text \<open>The bin count a slice declares per ray: the \<open>@bins\<close> of the first ray, if any.\<close>

definition declared_bins :: "(string \<times> pyval) list \<Rightarrow> pyval option" where
  "declared_bins d =
     (case map_of d ''rays'' of
        Some (PDict rd) \<Rightarrow>
          (case map_of rd ''ray'' of
             Some (PList (PDict r0 # rs)) \<Rightarrow> map_of r0 ''@bins''
           | x \<Rightarrow> None)
      | x \<Rightarrow> None)"

text \<open>The explicit angle list of a slice, if it declares one.\<close>

definition declared_angles :: "(string \<times> pyval) list \<Rightarrow> pyval option" where
  "declared_angles d =
     (case map_of d ''angles'' of
        Some (PDict ad) \<Rightarrow> map_of ad ''a''
      | x \<Rightarrow> None)"

text \<open>
  The sensor record of a tree: the mapping under volume, sensorinfo (an empty one when the
  volume has none); no record when the entry is not a mapping.
\<close>

definition sensorinfo :: "pyval \<Rightarrow> (string \<times> pyval) list option" where
  "sensorinfo tree =
     (case tree of
        PDict t \<Rightarrow>
          (case map_of t ''volume'' of
             Some (PDict vd) \<Rightarrow>
               (case map_of vd ''sensorinfo'' of
                  None \<Rightarrow> Some []
                | Some (PDict info) \<Rightarrow> Some info
                | Some x \<Rightarrow> None)
           | y \<Rightarrow> None)
      | z \<Rightarrow> None)"

text \<open>The tree with the sensor record of its volume replaced.\<close>

definition with_sensorinfo :: "pyval \<Rightarrow> (string \<times> pyval) list \<Rightarrow> pyval" where
  "with_sensorinfo tree info =
     (case tree of
        PDict t \<Rightarrow>
          (case map_of t ''volume'' of
             Some (PDict vd) \<Rightarrow>
               PDict ((''volume'', PDict ((''sensorinfo'', PDict info) # vd)) # t)
           | y \<Rightarrow> tree)
      | z \<Rightarrow> tree)"

text \<open>
  What the claim says of a position field: NaN when the field is absent or \<open>float\<close> fails
  on it, else the float.
\<close>

definition position :: "libs \<Rightarrow> (string \<times> pyval) list \<Rightarrow> string \<Rightarrow> fl" where
  "position L info k =
     (case map_of info k of
        None \<Rightarrow> NaN
      | Some v \<Rightarrow> (case py_float L v of Inl e \<Rightarrow> NaN | Inr x \<Rightarrow> x))"

text \<open>
  The nodes of a tree met along the path volume, scan, slice are all mappings, as the decoder
  delivers them.
\<close>

definition path_mappings :: "pyval \<Rightarrow> bool" where
  "path_mappings tree =
     (is_dict tree \<and>
      (case lookup tree ''volume'' of
         None \<Rightarrow> True
       | Some vol \<Rightarrow>
           is_dict vol \<and>
           (case lookup vol ''scan'' of
              None \<Rightarrow> True
            | Some scan \<Rightarrow>
                is_dict scan \<and>
                (case lookup scan ''slice'' of
                   None \<Rightarrow> True
                 | Some slc \<Rightarrow> is_dict slc))))"

text \<open>The four errors the extractor raises for a missing key or data block.\<close>

definition malformed :: "error \<Rightarrow> bool" where
  "malformed e =
     (e = ValueError ''Estructura Rainbow inesperada: falta 'volume'.''
      \<or> e = ValueError ''Estructura Rainbow inesperada: falta 'scan'.''
      \<or> e = ValueError ''Estructura Rainbow inesperada: falta 'slice'.''
      \<or> e = ValueError ''Slice Rainbow sin 'data' decodificado.'')"

text \<open>A result that is none of these four errors.\<close>

definition clean :: "error + 'a \<Rightarrow> bool" where
  "clean m = (case m of Inl e \<Rightarrow> \<not> malformed e | Inr x \<Rightarrow> True)"

section \<open>The nearest candidate\<close>

text \<open>The squared Euclidean distance of two points of finite coordinates.\<close>

fun dist2 :: "fl \<times> fl \<Rightarrow> fl \<times> fl \<Rightarrow> rat" where
  "dist2 (Fin a, Fin b) (Fin c, Fin d) = (a - c) * (a - c) + (b - d) * (b - d)"
| "dist2 p q = 0"

text \<open>
  What SciPy documents of \<open>cKDTree(pts).query(q, k=1)\<close>, for points and a query of finite
  coordinates: the index returned is that of a point at the least distance from the query.
  Nothing is said of which one among several at that distance, nor of a query that is not
  finite.
\<close>

definition kd_nearest :: "libs \<Rightarrow> bool" where
  "kd_nearest L =
     (\<forall>pts q. pts \<noteq> [] \<and> (\<forall>p \<in> set pts. isfinite (fst p) \<and> isfinite (snd p))
               \<and> isfinite (fst q) \<and> isfinite (snd q)
        \<longrightarrow> kd_query L pts q < length pts
            \<and> (\<forall>p \<in> set pts. dist2 (pts ! kd_query L pts q) q \<le> dist2 p q))"

section \<open>Concrete libraries and inputs\<close>

text \<open>
  An instance of the libraries with exact arithmetic, used to run the model on examples: no
  rounding, a float32 cast that changes nothing, a few numeric strings, a geometry that adds
  the radar position, one known EPSG code whose projection is the identity on the points with
  a latitude between -90 and 90 and gives infinities outside, and a k-d tree replaced by a
  linear scan for the first point at the least squared distance.
\<close>

fun scan_nearest :: "(fl \<times> fl) list \<Rightarrow> fl \<times> fl \<Rightarrow> nat" where
  "scan_nearest [] q = 0"
| "scan_nearest [p] q = 0"
| "scan_nearest (p # p' # ps) q =
     (let j = Suc (scan_nearest (p' # ps) q)
      in if dist2 p q \<le> dist2 ((p # p' # ps) ! j) q then 0 else j)"

definition demo_proj :: "fl \<Rightarrow> fl \<Rightarrow> fl \<times> fl" where
  "demo_proj lon lat =
     (if isnan lon \<or> isnan lat then (NaN, NaN)
      else if fle (Fin (-90)) lat \<and> fle lat (Fin 90) \<and> isfinite lon then (lon, lat)
      else (PInf, PInf))"

definition exact_libs :: libs where
  "exact_libs =
     \<lparr>rnd = Fin,
      to_f32 = (\<lambda>x. x),
      parse_float = map_of [(''0.0'', Fin 0), (''250.0'', Fin 250), (''90.0'', Fin 90),
                            (''-79.0'', Fin (-79)), (''nan'', NaN)],
      parse_int = map_of [(''3'', 3), (''2'', 2)],
      asarray_obj = (\<lambda>v. Some \<lparr>shape = [], elems = [NaN]\<rparr>),
      deg2rad = (\<lambda>x. x),
      spherical_to_xyz = (\<lambda>r a e (lo, la, al). (fadd Fin r lo, fadd Fin a la, fadd Fin e al)),
      from_epsg = (\<lambda>n. if n = 32717 then Some demo_proj else None),
      kd_query = scan_nearest\<rparr>"

definition demo_polar :: polar_ds where
  "demo_polar =
     \<lparr>ds_name = PStr ''dBZ'',
      ds_values = \<lparr>shape = [2, 2], elems = [Fin 1, Fin 2, Fin 3, NaN]\<rparr>,
      ds_var_attrs = [(''units'', PStr ''dBZ'')],
      ds_azimuth = [Fin 0, Fin 180],
      ds_range = [Fin 0, Fin 1000],
      ds_attrs = [(''source'', PStr ''Rainbow .azi'')]\<rparr>"

text \<open>A slice of two rays of three bins that declares its bin count and its first range.\<close>

definition demo_slice :: pyval where
  "demo_slice = PDict
     [(''@rstart'', PStr ''250.0''),
      (''rays'', PDict [(''ray'', PList [PDict [(''@bins'', PStr ''3'')],
                                         PDict [(''@bins'', PStr ''3'')]])]),
      (''data'', PArr [2, 3] [Fin 10, Fin 11, Fin 12, Fin 13, NaN, Fin 15])]"

text \<open>A slice of two rays of one bin that lists its angles.\<close>

definition demo_slice_angles :: pyval where
  "demo_slice_angles = PDict
     [(''angles'', PDict [(''a'', PList [PStr ''0.0'', PStr ''90.0''])]),
      (''data'', PArr [2, 1] [Fin 10, Fin 11])]"

text \<open>
  A tree around that slice, with a longitude, a latitude that is no number and no altitude,
  and the dataset \<open>read_azi\<close> makes of it.
\<close>

definition demo_tree :: pyval where
  "demo_tree = PDict
     [(''volume'', PDict
        [(''scan'', PDict [(''slice'', demo_slice)]),
         (''sensorinfo'', PDict [(''@lon'', PStr ''-79.0''), (''@lat'', PStr ''abc'')])])]"

definition demo_read :: polar_ds where
  "demo_read =
     \<lparr>ds_name = PStr ''dBZ'',
        ds_values = \<lparr>shape = [2, 3], elems = [Fin 10, Fin 11, Fin 12, Fin 13, NaN, Fin 15]\<rparr>,
        ds_var_attrs = [(''units'', PStr ''dBZ'')],
        ds_azimuth = [Fin 0, Fin 180],
        ds_range = [Fin 250, Fin 1250, Fin 2250],
        ds_attrs =
          [(''source'', PStr ''Rainbow .azi''),
           (''elevation_deg'', PFloat (Fin 0)),
           (''r0_m'', PFloat (Fin 250)), (''dr_m'', PFloat (Fin 1000)),
           (''radar_lon'', PFloat (Fin (- 79))),
           (''radar_lat'', PFloat NaN), (''radar_alt_m'', PFloat NaN)]\<rparr>"

text \<open>A tree whose volume holds no scan.\<close>

definition demo_tree_no_scan :: pyval where
  "demo_tree_no_scan = PDict [(''volume'', PDict [(''@version'', PStr ''5.43'')])]"

text \<open>
  A georeferenced scan of one ray, given by the values and the longitudes and latitudes of its
  samples.
\<close>

definition demo_lonlat :: "fl list \<Rightarrow> fl list \<Rightarrow> fl list \<Rightarrow> lonlat_ds" where
  "demo_lonlat v lon lat =
     \<lparr>ds_name = PStr ''dBZ'',
      ds_values = \<lparr>shape = [1, length v], elems = v\<rparr>,
      ds_var_attrs = [(''units'', PStr ''dBZ'')],
      ds_azimuth = [Fin 0],
      ds_range = map (\<lambda>i. Fin (1000 * of_nat i)) [0..<length v],
      ds_attrs = [],
      ds_lon = \<lparr>shape = [1, length v], elems = lon\<rparr>,
      ds_lat = \<lparr>shape = [1, length v], elems = lat\<rparr>,
      ds_alt = \<lparr>shape = [1, length v], elems = map (\<lambda>x. Fin 0) v\<rparr>\<rparr>"

text \<open>The grid of two rows and three columns these scans give, for a list of cell values.\<close>

definition demo_grid :: "fl list \<Rightarrow> grid_ds" where
  "demo_grid out =
     \<lparr>g_name = PStr ''dBZ'',
      g_out = \<lparr>shape = [2, 3], elems = out\<rparr>,
      g_x = [Fin (- 250), Fin 250, Fin 750], g_y = [Fin (- 250), Fin 250],
      g_var_attrs = [(''units'', PStr ''dBZ'')],
      g_attrs =
        [(''crs'', PStr ''EPSG:32717''),
         (''method'', PStr ''nearest (K=1)''),
         (''nodata'', PFloat (Fin (- 9999)))]\<rparr>"

text \<open>A result that is no error of the projection library.\<close>

definition no_crs :: "error + 'a \<Rightarrow> bool" where
  "no_crs m = (case m of Inl (CRSError n) \<Rightarrow> False | x \<Rightarrow> True)"

section \<open>Basic facts\<close>

lemma ebind_Inl [simp]: "ebind (Inl e) f = Inl e"
  by (simp add: ebind_def)

lemma ebind_Inr [simp]: "ebind (Inr x) f = f x"
  by (simp add: ebind_def)

lemma ebind_eq_Inr:
  "ebind m f = Inr y \<longleftrightarrow> (\<exists>x. m = Inr x \<and> f x = Inr y)"
  by (cases m) simp_all

lemma polar_to_xyz_raises: "polar_to_xyz L rs az el = Inl TypeError"
  by (simp add: polar_to_xyz_def georef_spherical_to_xyz_def Let_def split: prod.splits)

lemma polar_dataset_to_lonlat_raises:
  "\<exists>e. polar_dataset_to_lonlat L ds lo la al = Inl e"
  by (cases "py_float L (case map_of (ds_attrs ds) ''elevation_deg'' of
                          None \<Rightarrow> PFloat (Fin 0) | Some v \<Rightarrow> v)")
     (simp_all add: polar_dataset_to_lonlat_def polar_to_xyz_raises)

section \<open>Georeferencing without an elevation attribute\<close>

text \<open>
  Claim C10 says that a polar dataset whose attributes have no \<open>elevation_deg\<close> does not
  make \<open>polar_dataset_to_lonlat\<close> fail and gets the lon, lat and alt coordinates of the
  sweep at zero elevation. The code does take the elevation as 0.0, but the call of the
  geometry at that elevation raises TypeError, whatever the ranges and azimuths, and so does
  \<open>polar_dataset_to_lonlat\<close>: no coordinate is produced.
\<close>

theorem polar_dataset_to_lonlat_default_elev:
  assumes "map_of (ds_attrs ds) ''elevation_deg'' = None"
  shows "py_float L (case map_of (ds_attrs ds) ''elevation_deg'' of
                       None \<Rightarrow> PFloat (Fin 0) | Some v \<Rightarrow> v) = Inr (Fin 0)
     \<and> polar_to_xyz L (ds_range ds) (ds_azimuth ds) (Fin 0) = Inl TypeError
     \<and> polar_dataset_to_lonlat L ds radar_lon radar_lat radar_alt_m = Inl TypeError"
  using assms by (simp add: polar_dataset_to_lonlat_def polar_to_xyz_raises)

theorem polar_dataset_to_lonlat_default_elev_witness:
  "map_of (ds_attrs demo_polar) ''elevation_deg'' = None
   \<and> polar_dataset_to_lonlat exact_libs demo_polar (Fin 1) (Fin 2) (Fin 3) = Inl TypeError"
  using polar_dataset_to_lonlat_default_elev [of demo_polar exact_libs "Fin 1" "Fin 2" "Fin 3"]
  by (simp add: demo_polar_def)

lemma ebind_eq_Inl:
  "ebind m f = Inl e \<longleftrightarrow> m = Inl e \<or> (\<exists>x. m = Inr x \<and> f x = Inl e)"
  by (cases m) simp_all

lemma py_contains_getitem_dict:
  "py_contains x k = Inr True \<Longrightarrow> py_getitem x k = Inr v
     \<Longrightarrow> \<exists>d. x = PDict d \<and> map_of d k = Some v"
  by (cases x) (auto split: option.splits)

lemma py_getitem0_dict:
  "py_getitem0 ray = Inr (PDict r0) \<Longrightarrow> \<exists>rs. ray = PList (PDict r0 # rs)"
  by (erule py_getitem0.elims) (auto split: if_splits)

section \<open>The axes of a slice\<close>

lemma n_rng_of_declared:
  assumes "n_rng_of L (PDict d) data = Inr n"
  shows "case declared_bins d of
           Some b \<Rightarrow> py_int L b = Inr n
         | None \<Rightarrow> shape data \<noteq> [] \<and> n = int (last (shape data))"
proof (cases "map_of d ''rays''")
  case None
  with assms show ?thesis
    by (simp add: n_rng_of_def declared_bins_def shape_last_def split: if_splits)
next
  case (Some rays)
  obtain hr where hr: "py_contains rays ''ray'' = Inr hr"
    using assms Some by (cases "py_contains rays ''ray''") (simp_all add: n_rng_of_def)
  show ?thesis
  proof (cases hr)
    case False
    have nb: "declared_bins d = None"
      using Some hr False by (cases rays) (simp_all add: declared_bins_def)
    from assms Some hr False show ?thesis
      by (simp add: n_rng_of_def nb shape_last_def split: if_splits)
  next
    case True
    from assms Some hr True obtain ray ray0 where
      r: "py_getitem rays ''ray'' = Inr ray" and r0: "py_getitem0 ray = Inr ray0"
      and rest: "(case ray0 of
                    PDict d \<Rightarrow> ebind (shape_last data) (\<lambda>n.
                                 ebind (py_get ray0 ''@bins'' (PInt (int n))) (py_int L))
                  | _ \<Rightarrow> Inl AttributeError) = Inr n"
      by (auto simp: n_rng_of_def ebind_eq_Inr)
    from rest obtain rd0 where ray0: "ray0 = PDict rd0"
      by (cases ray0) simp_all
    from py_contains_getitem_dict[OF _ r] hr True obtain rd where
      rays: "rays = PDict rd" "map_of rd ''ray'' = Some ray"
      by auto
    from py_getitem0_dict[OF r0[unfolded ray0]] obtain rs
      where ray: "ray = PList (PDict rd0 # rs)"
      by auto
    have db: "declared_bins d = map_of rd0 ''@bins''"
      using Some rays ray by (simp add: declared_bins_def)
    from rest ray0 show ?thesis
      by (auto simp: db ebind_eq_Inr shape_last_def split: if_splits option.splits)
  qed
qed

lemma az_deg_of_declared:
  assumes "az_deg_of L (PDict d) data = Inr az"
  shows "case declared_angles d of
           Some a \<Rightarrow> \<exists>items. py_iter a = Inr items \<and> emap (py_float L) items = Inr az
         | None \<Rightarrow> \<exists>n_az ns. shape data = n_az # ns
                     \<and> az = linspace (rnd L) (Fin 0) (Fin 360) n_az"
proof (cases "map_of d ''angles''")
  case None
  with assms show ?thesis
    by (auto simp: az_deg_of_def declared_angles_def shape_first_def
        split: if_splits list.splits)
next
  case (Some an)
  obtain ha where ha: "py_contains an ''a'' = Inr ha"
    using assms Some by (cases "py_contains an ''a''") (simp_all add: az_deg_of_def)
  show ?thesis
  proof (cases ha)
    case False
    have nb: "declared_angles d = None"
      using Some ha False by (cases an) (simp_all add: declared_angles_def)
    from assms Some ha False show ?thesis
      by (auto simp: az_deg_of_def nb shape_first_def split: if_splits list.splits)
  next
    case True
    from assms Some ha True obtain a items where
      r: "py_getitem an ''a'' = Inr a" and it: "py_iter a = Inr items"
      and rest: "emap (py_float L) items = Inr az"
      by (auto simp: az_deg_of_def ebind_eq_Inr)
    from py_contains_getitem_dict[OF _ r] ha True obtain ad where
      an: "an = PDict ad" "map_of ad ''a'' = Some a"
      by auto
    have db: "declared_angles d = Some a"
      using Some an by (simp add: declared_angles_def)
    from it rest show ?thesis
      by (simp add: db)
  qed
qed

lemma get_data_and_axes_Inr:
  assumes "get_data_and_axes L slc = Inr (data, az, rng, m)"
  shows "\<exists>d dv n. slc = PDict d \<and> map_of d ''data'' = Some dv \<and> np_asarray L dv = Inr data
     \<and> py_float L (case map_of d ''@elevation'' of None \<Rightarrow> PFloat (Fin 0) | Some v \<Rightarrow> v)
         = Inr (elevation_deg m)
     \<and> py_float L (case map_of d ''@rstart'' of None \<Rightarrow> PFloat (Fin 0) | Some v \<Rightarrow> v)
         = Inr (r0_m m)
     \<and> py_float L (case map_of d ''@rscale'' of None \<Rightarrow> PFloat (Fin 1000) | Some v \<Rightarrow> v)
         = Inr (dr_m m)
     \<and> n_rng_of L slc data = Inr n
     \<and> rng = map (\<lambda>x. fadd (rnd L) (r0_m m) (fmul (rnd L) (dr_m m) x)) (arange_int (rnd L) n)
     \<and> az_deg_of L slc data = Inr az"
proof -
  from assms obtain dv where c: "py_contains slc ''data'' = Inr True"
    and g: "py_getitem slc ''data'' = Inr dv"
    by (auto simp: get_data_and_axes_def ebind_eq_Inr split: if_splits)
  from py_contains_getitem_dict[OF c g] obtain d
    where d: "slc = PDict d" "map_of d ''data'' = Some dv"
    by auto
  from assms show ?thesis
    unfolding get_data_and_axes_def d
    by (auto simp: d ebind_eq_Inr Let_def)
qed

lemma demo_slice_run:
  "get_data_and_axes exact_libs demo_slice =
     Inr (\<lparr>shape = [2, 3], elems = [Fin 10, Fin 11, Fin 12, Fin 13, NaN, Fin 15]\<rparr>,
          [Fin 0, Fin 180], [Fin 250, Fin 1250, Fin 2250],
          \<lparr>elevation_deg = Fin 0, r0_m = Fin 250, dr_m = Fin 1000\<rparr>)"
  by (simp add: get_data_and_axes_def demo_slice_def exact_libs_def n_rng_of_def az_deg_of_def
      shape_last_def shape_first_def arange_int_def linspace_def fsub_def Let_def upt_conv_Cons)

text \<open>
  Claim C7. For a slice the extractor accepts, the range coordinate has one entry per bin and
  entry \<open>i\<close> is \<open>range_start + range_step * i\<close> in float64 arithmetic; \<open>range_start\<close> is 0.0
  and \<open>range_step\<close> is 1000.0 when the slice has no \<open>@rstart\<close> or \<open>@rscale\<close>, else the float
  read from the field; the number of bins is the count the first ray declares when there is
  one, else the size of the last dimension of the data array.
\<close>

theorem get_data_and_axes_range:
  assumes "get_data_and_axes L slc = Inr (data, az_deg, ranges_m, m)"
  shows "\<exists>d n. slc = PDict d
     \<and> (case map_of d ''@rstart'' of None \<Rightarrow> r0_m m = Fin 0
          | Some v \<Rightarrow> py_float L v = Inr (r0_m m))
     \<and> (case map_of d ''@rscale'' of None \<Rightarrow> dr_m m = Fin 1000
          | Some v \<Rightarrow> py_float L v = Inr (dr_m m))
     \<and> (case declared_bins d of
          Some b \<Rightarrow> py_int L b = Inr n
        | None \<Rightarrow> shape data \<noteq> [] \<and> n = int (last (shape data)))
     \<and> length ranges_m = nat n
     \<and> (\<forall>i < nat n. ranges_m ! i
           = fadd (rnd L) (r0_m m) (fmul (rnd L) (dr_m m) (rnd L (of_nat i))))"
proof -
  from get_data_and_axes_Inr[OF assms] obtain d dv n where
    d: "slc = PDict d"
    and r0: "py_float L (case map_of d ''@rstart'' of None \<Rightarrow> PFloat (Fin 0) | Some v \<Rightarrow> v)
               = Inr (r0_m m)"
    and dr: "py_float L (case map_of d ''@rscale'' of None \<Rightarrow> PFloat (Fin 1000) | Some v \<Rightarrow> v)
               = Inr (dr_m m)"
    and n: "n_rng_of L slc data = Inr n"
    and rng: "ranges_m = map (\<lambda>x. fadd (rnd L) (r0_m m) (fmul (rnd L) (dr_m m) x))
                           (arange_int (rnd L) n)"
    by blast
  have 1: "case map_of d ''@rstart'' of None \<Rightarrow> r0_m m = Fin 0
           | Some v \<Rightarrow> py_float L v = Inr (r0_m m)"
    using r0 by (auto split: option.splits)
  have 2: "case map_of d ''@rscale'' of None \<Rightarrow> dr_m m = Fin 1000
           | Some v \<Rightarrow> py_float L v = Inr (dr_m m)"
    using dr by (auto split: option.splits)
  note 3 = n_rng_of_declared[OF n[unfolded d]]
  have 4: "length ranges_m = nat n"
    by (simp add: rng arange_int_def)
  have 5: "\<forall>i < nat n. ranges_m ! i
             = fadd (rnd L) (r0_m m) (fmul (rnd L) (dr_m m) (rnd L (of_nat i)))"
    by (simp add: rng arange_int_def)
  from d 1 2 3 4 5 show ?thesis
    by blast
qed

theorem get_data_and_axes_range_witness:
  "get_data_and_axes exact_libs demo_slice =
     Inr (\<lparr>shape = [2, 3], elems = [Fin 10, Fin 11, Fin 12, Fin 13, NaN, Fin 15]\<rparr>,
          [Fin 0, Fin 180], [Fin 250, Fin 1250, Fin 2250],
          \<lparr>elevation_deg = Fin 0, r0_m = Fin 250, dr_m = Fin 1000\<rparr>)
   \<and> (\<exists>d. demo_slice = PDict d
        \<and> map_of d ''@rstart'' = Some (PStr ''250.0'') \<and> map_of d ''@rscale'' = None
        \<and> declared_bins d = Some (PStr ''3''))
   \<and> py_float exact_libs (PStr ''250.0'') = Inr (Fin 250)
   \<and> py_int exact_libs (PStr ''3'') = Inr 3
   \<and> length [Fin 250, Fin 1250, Fin 2250] = nat 3
   \<and> [Fin 250, Fin 1250, Fin 2250 :: fl] ! 0
         = fadd (rnd exact_libs) (Fin 250) (fmul (rnd exact_libs) (Fin 1000) (rnd exact_libs 0))
   \<and> [Fin 250, Fin 1250, Fin 2250 :: fl] ! 1
         = fadd (rnd exact_libs) (Fin 250) (fmul (rnd exact_libs) (Fin 1000) (rnd exact_libs 1))
   \<and> [Fin 250, Fin 1250, Fin 2250 :: fl] ! 2
         = fadd (rnd exact_libs) (Fin 250) (fmul (rnd exact_libs) (Fin 1000) (rnd exact_libs 2))"
proof -
  from get_data_and_axes_range[OF demo_slice_run] obtain d n where
    d: "demo_slice = PDict d"
    and b: "case declared_bins d of Some b \<Rightarrow> py_int exact_libs b = Inr n
            | None \<Rightarrow> shape \<lparr>shape = [2, 3], elems = [Fin 10, Fin 11, Fin 12, Fin 13, NaN, Fin 15]\<rparr> \<noteq> []
                \<and> n = int (last (shape \<lparr>shape = [2, 3], elems = [Fin 10, Fin 11, Fin 12, Fin 13, NaN, Fin 15]\<rparr>))"
    and a: "\<forall>i < nat n. [Fin 250, Fin 1250, Fin 2250] ! i
         = fadd (rnd exact_libs) (r0_m \<lparr>elevation_deg = Fin 0, r0_m = Fin 250, dr_m = Fin 1000\<rparr>)
             (fmul (rnd exact_libs) (dr_m \<lparr>elevation_deg = Fin 0, r0_m = Fin 250, dr_m = Fin 1000\<rparr>)
                (rnd exact_libs (of_nat i)))"
    by blast
  have db: "declared_bins d = Some (PStr ''3'')"
    using d by (auto simp: demo_slice_def declared_bins_def)
  have n: "n = 3"
    using b by (simp add: db exact_libs_def)
  have m: "map_of d ''@rstart'' = Some (PStr ''250.0'') \<and> map_of d ''@rscale'' = None"
    using d by (auto simp: demo_slice_def)
  have e: "\<exists>d. demo_slice = PDict d
        \<and> map_of d ''@rstart'' = Some (PStr ''250.0'') \<and> map_of d ''@rscale'' = None
        \<and> declared_bins d = Some (PStr ''3'')"
    using d db m by blast
  have f: "py_float exact_libs (PStr ''250.0'') = Inr (Fin 250)
           \<and> py_int exact_libs (PStr ''3'') = Inr 3"
    by (simp add: exact_libs_def)
  from a[unfolded n] have g:
    "[Fin 250, Fin 1250, Fin 2250 :: fl] ! 0
       = fadd (rnd exact_libs) (Fin 250) (fmul (rnd exact_libs) (Fin 1000) (rnd exact_libs 0))
     \<and> [Fin 250, Fin 1250, Fin 2250 :: fl] ! 1
       = fadd (rnd exact_libs) (Fin 250) (fmul (rnd exact_libs) (Fin 1000) (rnd exact_libs 1))
     \<and> [Fin 250, Fin 1250, Fin 2250 :: fl] ! 2
       = fadd (rnd exact_libs) (Fin 250) (fmul (rnd exact_libs) (Fin 1000) (rnd exact_libs 2))"
    by (simp add: exact_libs_def)
  show ?thesis
    using demo_slice_run e f g
    by simp
qed

lemma emap_Inr:
  "emap f xs = Inr ys \<longleftrightarrow> length ys = length xs \<and> (\<forall>i < length xs. f (xs ! i) = Inr (ys ! i))"
proof (induction xs arbitrary: ys)
  case Nil
  then show ?case by auto
next
  case (Cons x xs)
  show ?case
  proof (cases ys)
    case Nil
    then show ?thesis by (auto simp: ebind_eq_Inr)
  next
    case (Cons y ys')
    then show ?thesis
      using Cons.IH[of ys']
      by (auto simp: ebind_eq_Inr less_Suc_eq_0_disj)
  qed
qed

lemma linspace_length: "length (linspace r a b n) = n"
  by (simp add: linspace_def Let_def)

lemma linspace_exact:
  assumes "i < n"
  shows "linspace Fin (Fin 0) (Fin 360) n ! i = Fin (360 * of_nat i / of_nat n)"
  using assms by (simp add: linspace_def Let_def fsub_def)

text \<open>
  Claim C8. A slice that declares no angle list gets \<open>n_az\<close> azimuths from
  \<open>linspace(0, 360, n_az, endpoint=False)\<close>, with \<open>n_az\<close> the first dimension of the data
  array: with exact arithmetic entry \<open>i\<close> is \<open>360 i / n_az\<close>, from 0 and below 360. A slice
  that declares the list gets the float of each of its entries in turn.
\<close>

theorem get_data_and_axes_azimuth:
  assumes "get_data_and_axes L slc = Inr (data, az_deg, ranges_m, m)"
  shows "\<exists>d. slc = PDict d
     \<and> (case declared_angles d of
          Some a \<Rightarrow>
            \<exists>items. py_iter a = Inr items \<and> length az_deg = length items
              \<and> (\<forall>i < length items. py_float L (items ! i) = Inr (az_deg ! i))
        | None \<Rightarrow>
            \<exists>n_az ns. shape data = n_az # ns
              \<and> az_deg = linspace (rnd L) (Fin 0) (Fin 360) n_az
              \<and> length az_deg = n_az
              \<and> ((\<forall>q. rnd L q = Fin q) \<longrightarrow>
                   (\<forall>i < n_az. az_deg ! i = Fin (360 * of_nat i / of_nat n_az)
                       \<and> fle (Fin 0) (az_deg ! i) \<and> az_deg ! i \<noteq> Fin 360 \<and> fle (az_deg ! i) (Fin 360))))"
proof -
  from get_data_and_axes_Inr[OF assms] obtain d where
    d: "slc = PDict d" and az: "az_deg_of L slc data = Inr az_deg"
    by blast
  note c = az_deg_of_declared[OF az[unfolded d]]
  show ?thesis
  proof (cases "declared_angles d")
    case None
    with c obtain n_az ns where s: "shape data = n_az # ns"
      and l: "az_deg = linspace (rnd L) (Fin 0) (Fin 360) n_az"
      by auto
    have ex: "\<forall>i < n_az. az_deg ! i = Fin (360 * of_nat i / of_nat n_az)
                       \<and> fle (Fin 0) (az_deg ! i) \<and> az_deg ! i \<noteq> Fin 360 \<and> fle (az_deg ! i) (Fin 360)"
      if e: "\<forall>q. rnd L q = Fin q"
    proof (intro allI impI)
      fix i assume i: "i < n_az"
      from e have r: "rnd L = Fin" by (simp add: fun_eq_iff)
      have v: "az_deg ! i = Fin (360 * of_nat i / of_nat n_az)"
        using linspace_exact[OF i] by (simp add: l r)
      have "(360 * of_nat i :: rat) < 360 * of_nat n_az" using i by simp
      then have lt: "(360 * of_nat i / of_nat n_az :: rat) < 360"
        using i by (simp add: divide_less_eq)
      have ge: "(0::rat) \<le> 360 * of_nat i / of_nat n_az" by simp
      show "az_deg ! i = Fin (360 * of_nat i / of_nat n_az)
                       \<and> fle (Fin 0) (az_deg ! i) \<and> az_deg ! i \<noteq> Fin 360 \<and> fle (az_deg ! i) (Fin 360)"
        using lt ge by (simp add: v)
    qed
    have len: "length az_deg = n_az"
      by (simp add: l linspace_length)
    from s l len ex have "\<exists>n_az ns. shape data = n_az # ns
              \<and> az_deg = linspace (rnd L) (Fin 0) (Fin 360) n_az
              \<and> length az_deg = n_az
              \<and> ((\<forall>q. rnd L q = Fin q) \<longrightarrow>
                   (\<forall>i < n_az. az_deg ! i = Fin (360 * of_nat i / of_nat n_az)
                       \<and> fle (Fin 0) (az_deg ! i) \<and> az_deg ! i \<noteq> Fin 360 \<and> fle (az_deg ! i) (Fin 360)))"
      by blast
    then have "case declared_angles d of
          Some a \<Rightarrow>
            \<exists>items. py_iter a = Inr items \<and> length az_deg = length items
              \<and> (\<forall>i < length items. py_float L (items ! i) = Inr (az_deg ! i))
        | None \<Rightarrow>
            \<exists>n_az ns. shape data = n_az # ns
              \<and> az_deg = linspace (rnd L) (Fin 0) (Fin 360) n_az
              \<and> length az_deg = n_az
              \<and> ((\<forall>q. rnd L q = Fin q) \<longrightarrow>
                   (\<forall>i < n_az. az_deg ! i = Fin (360 * of_nat i / of_nat n_az)
                       \<and> fle (Fin 0) (az_deg ! i) \<and> az_deg ! i \<noteq> Fin 360 \<and> fle (az_deg ! i) (Fin 360)))"
      by (simp only: None option.case)
    with d show ?thesis
      by blast
  next
    case (Some a)
    with c show ?thesis using d by (auto simp: emap_Inr)
  qed
qed



lemma demo_slice_angles_run:
  "get_data_and_axes exact_libs demo_slice_angles =
     Inr (\<lparr>shape = [2, 1], elems = [Fin 10, Fin 11]\<rparr>, [Fin 0, Fin 90], [Fin 0],
          \<lparr>elevation_deg = Fin 0, r0_m = Fin 0, dr_m = Fin 1000\<rparr>)"
  by (simp add: get_data_and_axes_def demo_slice_angles_def exact_libs_def n_rng_of_def
      az_deg_of_def shape_last_def shape_first_def arange_int_def Let_def upt_conv_Cons)

theorem get_data_and_axes_azimuth_witness:
  "get_data_and_axes exact_libs demo_slice =
     Inr (\<lparr>shape = [2, 3], elems = [Fin 10, Fin 11, Fin 12, Fin 13, NaN, Fin 15]\<rparr>,
          [Fin 0, Fin 180], [Fin 250, Fin 1250, Fin 2250],
          \<lparr>elevation_deg = Fin 0, r0_m = Fin 250, dr_m = Fin 1000\<rparr>)
   \<and> (\<exists>d. demo_slice = PDict d \<and> declared_angles d = None)
   \<and> (\<forall>q. rnd exact_libs q = Fin q)
   \<and> [Fin 0, Fin 180] = linspace (rnd exact_libs) (Fin 0) (Fin 360) 2
   \<and> [Fin 0, Fin 180 :: fl] ! 0 = Fin (360 * of_nat 0 / of_nat 2)
   \<and> [Fin 0, Fin 180 :: fl] ! 1 = Fin (360 * of_nat 1 / of_nat 2)
   \<and> get_data_and_axes exact_libs demo_slice_angles =
     Inr (\<lparr>shape = [2, 1], elems = [Fin 10, Fin 11]\<rparr>, [Fin 0, Fin 90], [Fin 0],
          \<lparr>elevation_deg = Fin 0, r0_m = Fin 0, dr_m = Fin 1000\<rparr>)
   \<and> (\<exists>d. demo_slice_angles = PDict d
        \<and> declared_angles d = Some (PList [PStr ''0.0'', PStr ''90.0'']))
   \<and> py_float exact_libs (PStr ''0.0'') = Inr (Fin 0)
   \<and> py_float exact_libs (PStr ''90.0'') = Inr (Fin 90)"
proof -
  have e: "\<forall>q. rnd exact_libs q = Fin q"
    by (simp add: exact_libs_def)
  from get_data_and_axes_azimuth[OF demo_slice_run] obtain d where
    d: "demo_slice = PDict d"
    and c: "case declared_angles d of
          Some a \<Rightarrow>
            \<exists>items. py_iter a = Inr items \<and> length [Fin 0, Fin 180] = length items
              \<and> (\<forall>i < length items. py_float exact_libs (items ! i) = Inr ([Fin 0, Fin 180] ! i))
        | None \<Rightarrow>
            \<exists>n_az ns. shape \<lparr>shape = [2, 3], elems = [Fin 10, Fin 11, Fin 12, Fin 13, NaN, Fin 15]\<rparr> = n_az # ns
              \<and> [Fin 0, Fin 180] = linspace (rnd exact_libs) (Fin 0) (Fin 360) n_az
              \<and> length [Fin 0, Fin 180] = n_az
              \<and> ((\<forall>q. rnd exact_libs q = Fin q) \<longrightarrow>
                   (\<forall>i < n_az. [Fin 0, Fin 180] ! i = Fin (360 * of_nat i / of_nat n_az)
                       \<and> fle (Fin 0) ([Fin 0, Fin 180] ! i) \<and> [Fin 0, Fin 180] ! i \<noteq> Fin 360
                       \<and> fle ([Fin 0, Fin 180] ! i) (Fin 360)))"
    by blast
  have n: "declared_angles d = None"
    using d by (auto simp: demo_slice_def declared_angles_def)
  from c n e have 1: "[Fin 0, Fin 180] = linspace (rnd exact_libs) (Fin 0) (Fin 360) 2"
    and 0: "\<forall>i < 2. [Fin 0, Fin 180 :: fl] ! i = Fin (360 * of_nat i / of_nat 2)"
    by auto
  from 0 have 2: "[Fin 0, Fin 180 :: fl] ! 0 = Fin (360 * of_nat 0 / of_nat 2)
      \<and> [Fin 0, Fin 180 :: fl] ! 1 = Fin (360 * of_nat 1 / of_nat 2)"
    by simp
  from get_data_and_axes_azimuth[OF demo_slice_angles_run] obtain d' where
    d': "demo_slice_angles = PDict d'"
    by blast
  have a: "declared_angles d' = Some (PList [PStr ''0.0'', PStr ''90.0''])"
    using d' by (auto simp: demo_slice_angles_def declared_angles_def)
  have f: "py_float exact_libs (PStr ''0.0'') = Inr (Fin 0)
           \<and> py_float exact_libs (PStr ''90.0'') = Inr (Fin 90)"
    by (simp add: exact_libs_def)
  have x: "\<exists>d. demo_slice = PDict d \<and> declared_angles d = None"
    using d n by blast
  have y: "\<exists>d. demo_slice_angles = PDict d
        \<and> declared_angles d = Some (PList [PStr ''0.0'', PStr ''90.0''])"
    using d' a by blast
  show ?thesis
    using demo_slice_run demo_slice_angles_run e 1 2 x y f by blast
qed

section \<open>The dataset of a tree\<close>

lemma py_get_Inr:
  "py_get x k dflt = Inr v
     \<Longrightarrow> \<exists>d. x = PDict d \<and> v = (case map_of d k of None \<Rightarrow> dflt | Some w \<Rightarrow> w)"
  by (cases x) auto

lemma safe_float_get:
  "safe_float L (case map_of info k of None \<Rightarrow> PFloat NaN | Some v \<Rightarrow> v) = position L info k"
  by (simp add: safe_float_def position_def split: option.splits)

lemma extract_slice_Inr:
  assumes "extract_slice tree = Inr slc"
  shows "\<exists>t vd sd. tree = PDict t \<and> map_of t ''volume'' = Some (PDict vd)
     \<and> map_of vd ''scan'' = Some (PDict sd) \<and> map_of sd ''slice'' = Some slc \<and> slc \<noteq> PNone"
proof -
  from assms obtain vol where v: "py_get tree ''volume'' PNone = Inr vol" "vol \<noteq> PNone"
    and r1: "ebind (py_get vol ''scan'' PNone) (\<lambda>scan.
     if scan = PNone then Inl (ValueError ''Estructura Rainbow inesperada: falta 'scan'.'')
     else
     ebind (py_get scan ''slice'' PNone) (\<lambda>slc.
     if slc = PNone then Inl (ValueError ''Estructura Rainbow inesperada: falta 'slice'.'')
     else Inr slc)) = Inr slc"
    unfolding extract_slice_def by (auto simp: ebind_eq_Inr split: if_splits)
  from r1 obtain scan where s: "py_get vol ''scan'' PNone = Inr scan" "scan \<noteq> PNone"
    and r2: "py_get scan ''slice'' PNone = Inr slc" "slc \<noteq> PNone"
    by (auto simp: ebind_eq_Inr split: if_splits)
  from py_get_Inr[OF v(1)] v(2) obtain t where t: "tree = PDict t" "map_of t ''volume'' = Some vol"
    by (auto split: option.splits)
  from py_get_Inr[OF s(1)] s(2) obtain vd where vd: "vol = PDict vd" "map_of vd ''scan'' = Some scan"
    by (auto split: option.splits)
  from py_get_Inr[OF r2(1)] r2(2) obtain sd where sd: "scan = PDict sd" "map_of sd ''slice'' = Some slc"
    by (auto split: option.splits)
  from t vd sd r2(2) show ?thesis by blast
qed

lemma read_azi_Inr:
  assumes "read_azi L tree = Inr ds"
  shows "\<exists>slc data az rng m info. extract_slice tree = Inr slc
     \<and> get_data_and_axes L slc = Inr (data, az, rng, m)
     \<and> check_dims data az rng = Inr ()
     \<and> sensorinfo tree = Some info
     \<and> ds_values ds = data \<and> ds_azimuth ds = az \<and> ds_range ds = rng
     \<and> ds_attrs ds =
            [(''source'', PStr ''Rainbow .azi''),
             (''elevation_deg'', PFloat (elevation_deg m)),
             (''r0_m'', PFloat (r0_m m)),
             (''dr_m'', PFloat (dr_m m)),
             (''radar_lon'', PFloat (position L info ''@lon'')),
             (''radar_lat'', PFloat (position L info ''@lat'')),
             (''radar_alt_m'', PFloat (position L info ''@alt''))]"
proof -
  from assms obtain slc where es: "extract_slice tree = Inr slc"
    unfolding read_azi_def by (auto simp: ebind_eq_Inr)
  from extract_slice_Inr[OF es] obtain t vd where
    t: "tree = PDict t" "map_of t ''volume'' = Some (PDict vd)" by blast
  from assms es obtain data az rng m where g: "get_data_and_axes L slc = Inr (data, az, rng, m)"
    unfolding read_azi_def by (auto simp: ebind_eq_Inr)
  from assms obtain info where i: "py_get (PDict vd) ''sensorinfo'' (PDict []) = Inr (PDict info)"
    unfolding read_azi_def t es g
    by (auto simp: ebind_eq_Inr t dest!: py_get_Inr)
  have si: "sensorinfo tree = Some info"
    using i t by (auto simp: sensorinfo_def split: option.splits pyval.splits)
  have v: "py_get tree ''volume'' (PDict []) = Inr (PDict vd)"
    using t by simp
  from i have i': "(case map_of vd ''sensorinfo'' of None \<Rightarrow> PDict [] | Some v \<Rightarrow> v) = PDict info"
    by simp
  from assms show ?thesis
    unfolding read_azi_def es g
    by (auto simp: ebind_eq_Inr v i' si safe_float_get)
qed

lemma check_dims_Inr:
  "check_dims data c0 c1 = Inr u \<Longrightarrow> shape data = [length c0, length c1]"
  by (simp add: check_dims_def split: if_splits)

text \<open>
  Claim C3 says that the values have the shape \<open>(len(azimuth), len(range))\<close> in the dataset
  the extractor produces and that georeferencing preserves this, with lon, lat and alt arrays
  of that shape. The first half holds of every dataset \<open>read_azi\<close> returns, whether the bin
  count came from the first ray's \<open>@bins\<close> or from the data array. The second half does not:
  on every such dataset \<open>polar_dataset_to_lonlat\<close> raises TypeError, so the georeferencing
  stage produces no lon, lat or alt array.
\<close>

theorem read_azi_shape:
  assumes "read_azi L tree = Inr ds"
  shows "shape (ds_values ds) = [length (ds_azimuth ds), length (ds_range ds)]
     \<and> polar_dataset_to_lonlat L ds radar_lon radar_lat radar_alt_m = Inl TypeError"
proof -
  from read_azi_Inr[OF assms] obtain slc data az rng m info where
    "extract_slice tree = Inr slc"
    and "get_data_and_axes L slc = Inr (data, az, rng, m)"
    and c: "check_dims data az rng = Inr ()"
    and "sensorinfo tree = Some info"
    and f: "ds_values ds = data" "ds_azimuth ds = az" "ds_range ds = rng"
    and at: "ds_attrs ds =
            [(''source'', PStr ''Rainbow .azi''),
             (''elevation_deg'', PFloat (elevation_deg m)),
             (''r0_m'', PFloat (r0_m m)),
             (''dr_m'', PFloat (dr_m m)),
             (''radar_lon'', PFloat (position L info ''@lon'')),
             (''radar_lat'', PFloat (position L info ''@lat'')),
             (''radar_alt_m'', PFloat (position L info ''@alt''))]"
    by (elim exE conjE)
  have a: "map_of (ds_attrs ds) ''elevation_deg'' = Some (PFloat (elevation_deg m))"
    by (simp add: at)
  have 1: "shape (ds_values ds) = [length (ds_azimuth ds), length (ds_range ds)]"
    using check_dims_Inr[OF c] f by simp
  have 2: "polar_dataset_to_lonlat L ds radar_lon radar_lat radar_alt_m = Inl TypeError"
    by (simp add: polar_dataset_to_lonlat_def a polar_to_xyz_raises)
  from 1 2 show ?thesis by simp
qed

lemma demo_tree_run:
  "read_azi exact_libs demo_tree =
     Inr \<lparr>ds_name = PStr ''dBZ'',
        ds_values = \<lparr>shape = [2, 3], elems = [Fin 10, Fin 11, Fin 12, Fin 13, NaN, Fin 15]\<rparr>,
        ds_var_attrs = [(''units'', PStr ''dBZ'')],
        ds_azimuth = [Fin 0, Fin 180],
        ds_range = [Fin 250, Fin 1250, Fin 2250],
        ds_attrs =
          [(''source'', PStr ''Rainbow .azi''),
           (''elevation_deg'', PFloat (Fin 0)),
           (''r0_m'', PFloat (Fin 250)), (''dr_m'', PFloat (Fin 1000)),
           (''radar_lon'', PFloat (Fin (- 79))),
           (''radar_lat'', PFloat NaN), (''radar_alt_m'', PFloat NaN)]\<rparr>"
proof -
  have e: "extract_slice demo_tree = Inr demo_slice"
    by (simp add: extract_slice_def demo_tree_def demo_slice_def)
  have p: "py_get demo_slice ''param'' (PDict []) = Inr (PDict [])"
    by (simp add: demo_slice_def)
  show ?thesis
    unfolding read_azi_def e
    by (simp add: demo_slice_run p check_dims_def) (simp add: demo_tree_def safe_float_def exact_libs_def)
qed

lemma demo_tree_read: "read_azi exact_libs demo_tree = Inr demo_read"
  by (simp add: demo_tree_run demo_read_def)

theorem read_azi_shape_witness:
  "read_azi exact_libs demo_tree = Inr demo_read
   \<and> (\<exists>d. demo_slice = PDict d \<and> declared_bins d = Some (PStr ''3''))
   \<and> shape (ds_values demo_read) = [2, 3]
   \<and> length (ds_azimuth demo_read) = 2 \<and> length (ds_range demo_read) = 3
   \<and> polar_dataset_to_lonlat exact_libs demo_read (Fin (- 79)) (Fin (- 3)) (Fin 4450)
       = Inl TypeError"
proof -
  have b: "\<exists>d. demo_slice = PDict d \<and> declared_bins d = Some (PStr ''3'')"
    by (simp add: demo_slice_def declared_bins_def)
  show ?thesis
    using read_azi_shape[OF demo_tree_read, of "Fin (- 79)" "Fin (- 3)" "Fin 4450"] b
    by (simp add: demo_tree_read demo_read_def)
qed

lemma extract_slice_with_sensorinfo:
  assumes "extract_slice tree = Inr slc"
  shows "extract_slice (with_sensorinfo tree info) = Inr slc"
proof -
  from extract_slice_Inr[OF assms] obtain t vd sd where
    t: "tree = PDict t" "map_of t ''volume'' = Some (PDict vd)"
    "map_of vd ''scan'' = Some (PDict sd)" "map_of sd ''slice'' = Some slc" "slc \<noteq> PNone"
    by blast
  then show ?thesis
    by (simp add: with_sensorinfo_def extract_slice_def)
qed

text \<open>
  Claim C9. Each radar position stored by the extractor is NaN when its field is absent or
  cannot be read as a float, and the float otherwise; no content of the sensor record makes
  the extractor raise: a tree that is read is still read, with the same values and axes,
  after its sensor record is replaced by any mapping.
\<close>

theorem read_azi_position:
  assumes "read_azi L tree = Inr ds"
  shows "(\<exists>info. sensorinfo tree = Some info
            \<and> map_of (ds_attrs ds) ''radar_lon'' = Some (PFloat (position L info ''@lon''))
            \<and> map_of (ds_attrs ds) ''radar_lat'' = Some (PFloat (position L info ''@lat''))
            \<and> map_of (ds_attrs ds) ''radar_alt_m'' = Some (PFloat (position L info ''@alt'')))
     \<and> (\<forall>info'. \<exists>ds'. read_azi L (with_sensorinfo tree info') = Inr ds'
            \<and> map_of (ds_attrs ds') ''radar_lon'' = Some (PFloat (position L info' ''@lon''))
            \<and> map_of (ds_attrs ds') ''radar_lat'' = Some (PFloat (position L info' ''@lat''))
            \<and> map_of (ds_attrs ds') ''radar_alt_m'' = Some (PFloat (position L info' ''@alt''))
            \<and> ds_values ds' = ds_values ds \<and> ds_azimuth ds' = ds_azimuth ds
            \<and> ds_range ds' = ds_range ds)"
proof -
  from read_azi_Inr[OF assms] obtain slc data az rng m info where
    es: "extract_slice tree = Inr slc"
    and g: "get_data_and_axes L slc = Inr (data, az, rng, m)"
    and si: "sensorinfo tree = Some info"
    and f: "ds_values ds = data" "ds_azimuth ds = az" "ds_range ds = rng"
    and at: "ds_attrs ds =
            [(''source'', PStr ''Rainbow .azi''),
             (''elevation_deg'', PFloat (elevation_deg m)),
             (''r0_m'', PFloat (r0_m m)),
             (''dr_m'', PFloat (dr_m m)),
             (''radar_lon'', PFloat (position L info ''@lon'')),
             (''radar_lat'', PFloat (position L info ''@lat'')),
             (''radar_alt_m'', PFloat (position L info ''@alt''))]"
    by blast
  have 1: "\<exists>info. sensorinfo tree = Some info
            \<and> map_of (ds_attrs ds) ''radar_lon'' = Some (PFloat (position L info ''@lon''))
            \<and> map_of (ds_attrs ds) ''radar_lat'' = Some (PFloat (position L info ''@lat''))
            \<and> map_of (ds_attrs ds) ''radar_alt_m'' = Some (PFloat (position L info ''@alt''))"
    using si by (simp add: at)
  from extract_slice_Inr[OF es] obtain t vd where
    t: "tree = PDict t" "map_of t ''volume'' = Some (PDict vd)"
    by blast
  from assms obtain param units pname where
    pa: "py_get slc ''param'' (PDict []) = Inr param"
    and un: "py_get param ''@units'' (PStr ''dBZ'') = Inr units"
    and pn: "py_get param ''@name'' (PStr ''dBZ'') = Inr pname"
    and cd: "check_dims data az rng = Inr ()"
    and td: "to_dataset pname [''azimuth'', ''range''] = Inr ()"
    unfolding read_azi_def
    by (auto simp: ebind_eq_Inr es g)
  have 2: "\<exists>ds'. read_azi L (with_sensorinfo tree info') = Inr ds'
            \<and> map_of (ds_attrs ds') ''radar_lon'' = Some (PFloat (position L info' ''@lon''))
            \<and> map_of (ds_attrs ds') ''radar_lat'' = Some (PFloat (position L info' ''@lat''))
            \<and> map_of (ds_attrs ds') ''radar_alt_m'' = Some (PFloat (position L info' ''@alt''))
            \<and> ds_values ds' = ds_values ds \<and> ds_azimuth ds' = ds_azimuth ds
            \<and> ds_range ds' = ds_range ds" for info'
  proof -
    have w: "with_sensorinfo tree info'
        = PDict ((''volume'', PDict ((''sensorinfo'', PDict info') # vd)) # t)"
      using t by (simp add: with_sensorinfo_def)
    have "read_azi L (with_sensorinfo tree info') =
       Inr \<lparr>ds_name = pname, ds_values = data, ds_var_attrs = [(''units'', units)],
          ds_azimuth = az, ds_range = rng,
          ds_attrs =
            [(''source'', PStr ''Rainbow .azi''),
             (''elevation_deg'', PFloat (elevation_deg m)),
             (''r0_m'', PFloat (r0_m m)),
             (''dr_m'', PFloat (dr_m m)),
             (''radar_lon'', PFloat (position L info' ''@lon'')),
             (''radar_lat'', PFloat (position L info' ''@lat'')),
             (''radar_alt_m'', PFloat (position L info' ''@alt''))]\<rparr>"
      unfolding read_azi_def extract_slice_with_sensorinfo[OF es]
      by (simp add: g pa un pn cd td) (simp add: w safe_float_get)
    then show ?thesis
      using f by simp
  qed
  from 1 2 show ?thesis
    by blast
qed

lemma position_NaN:
  "map_of info k = None \<Longrightarrow> position L info k = NaN"
  "map_of info k = Some v \<Longrightarrow> py_float L v = Inl e \<Longrightarrow> position L info k = NaN"
  "map_of info k = Some v \<Longrightarrow> py_float L v = Inr x \<Longrightarrow> position L info k = x"
  by (simp_all add: position_def)

theorem read_azi_position_witness:
  "read_azi exact_libs demo_tree = Inr demo_read
   \<and> sensorinfo demo_tree = Some [(''@lon'', PStr ''-79.0''), (''@lat'', PStr ''abc'')]
   \<and> position exact_libs [(''@lon'', PStr ''-79.0''), (''@lat'', PStr ''abc'')] ''@lon'' = Fin (- 79)
   \<and> position exact_libs [(''@lon'', PStr ''-79.0''), (''@lat'', PStr ''abc'')] ''@lat'' = NaN
   \<and> position exact_libs [(''@lon'', PStr ''-79.0''), (''@lat'', PStr ''abc'')] ''@alt'' = NaN
   \<and> map_of (ds_attrs demo_read) ''radar_lon'' = Some (PFloat (Fin (- 79)))
   \<and> map_of (ds_attrs demo_read) ''radar_lat'' = Some (PFloat NaN)
   \<and> map_of (ds_attrs demo_read) ''radar_alt_m'' = Some (PFloat NaN)
   \<and> (\<exists>ds'. read_azi exact_libs (with_sensorinfo demo_tree [(''@alt'', PNone)]) = Inr ds'
        \<and> map_of (ds_attrs ds') ''radar_lon'' = Some (PFloat NaN)
        \<and> map_of (ds_attrs ds') ''radar_lat'' = Some (PFloat NaN)
        \<and> map_of (ds_attrs ds') ''radar_alt_m'' = Some (PFloat NaN)
        \<and> ds_values ds' = ds_values demo_read)"
proof -
  note t = read_azi_position[OF demo_tree_read]
  have s: "sensorinfo demo_tree = Some [(''@lon'', PStr ''-79.0''), (''@lat'', PStr ''abc'')]"
    by (simp add: sensorinfo_def demo_tree_def)
  have p: "position exact_libs [(''@lon'', PStr ''-79.0''), (''@lat'', PStr ''abc'')] ''@lon'' = Fin (- 79)"
    "position exact_libs [(''@lon'', PStr ''-79.0''), (''@lat'', PStr ''abc'')] ''@lat'' = NaN"
    "position exact_libs [(''@lon'', PStr ''-79.0''), (''@lat'', PStr ''abc'')] ''@alt'' = NaN"
    by (simp_all add: position_def exact_libs_def)
  have q: "position exact_libs [(''@alt'', PNone)] ''@lon'' = NaN"
    "position exact_libs [(''@alt'', PNone)] ''@lat'' = NaN"
    "position exact_libs [(''@alt'', PNone)] ''@alt'' = NaN"
    by (simp_all add: position_def)
  from t s p have a: "map_of (ds_attrs demo_read) ''radar_lon'' = Some (PFloat (Fin (- 79)))
   \<and> map_of (ds_attrs demo_read) ''radar_lat'' = Some (PFloat NaN)
   \<and> map_of (ds_attrs demo_read) ''radar_alt_m'' = Some (PFloat NaN)"
    by auto
  from t have "\<exists>ds'. read_azi exact_libs (with_sensorinfo demo_tree [(''@alt'', PNone)]) = Inr ds'
        \<and> map_of (ds_attrs ds') ''radar_lon'' = Some (PFloat (position exact_libs [(''@alt'', PNone)] ''@lon''))
        \<and> map_of (ds_attrs ds') ''radar_lat'' = Some (PFloat (position exact_libs [(''@alt'', PNone)] ''@lat''))
        \<and> map_of (ds_attrs ds') ''radar_alt_m'' = Some (PFloat (position exact_libs [(''@alt'', PNone)] ''@alt''))
        \<and> ds_values ds' = ds_values demo_read"
    by blast
  then have b: "\<exists>ds'. read_azi exact_libs (with_sensorinfo demo_tree [(''@alt'', PNone)]) = Inr ds'
        \<and> map_of (ds_attrs ds') ''radar_lon'' = Some (PFloat NaN)
        \<and> map_of (ds_attrs ds') ''radar_lat'' = Some (PFloat NaN)
        \<and> map_of (ds_attrs ds') ''radar_alt_m'' = Some (PFloat NaN)
        \<and> ds_values ds' = ds_values demo_read"
    by (simp only: q)
  show ?thesis
    using demo_tree_read s p a b by blast
qed

section \<open>Missing keys\<close>

lemma clean_Inr [simp]: "clean (Inr x)"
  by (simp add: clean_def)

lemma clean_ebind: "clean m \<Longrightarrow> (\<And>x. clean (f x)) \<Longrightarrow> clean (ebind m f)"
  by (cases m) (simp_all add: clean_def)

lemma clean_simple [simp]:
  "clean (Inl TypeError)" "clean (Inl AttributeError)" "clean (Inl IndexError)"
  "clean (Inl OverflowError)" "clean (Inl (KeyError k))"
  by (simp_all add: clean_def malformed_def)

lemma clean_py_get: "clean (py_get x k d)"
  by (cases x) simp_all

lemma clean_py_contains: "clean (py_contains x k)"
  by (cases x) simp_all

lemma clean_py_getitem: "clean (py_getitem x k)"
  by (cases x) (simp_all split: option.splits)

lemma clean_py_getitem0: "clean (py_getitem0 x)"
  by (induction x rule: py_getitem0.induct) simp_all

lemma clean_py_iter: "clean (py_iter x)"
  by (induction x rule: py_iter.induct) simp_all

lemma clean_py_float: "clean (py_float L x)"
  by (cases x) (simp_all add: clean_def malformed_def split: option.splits fl.splits list.splits)

lemma clean_int_of_fl: "clean (int_of_fl x)"
  by (cases x) (simp_all add: clean_def malformed_def)

lemma clean_py_int: "clean (py_int L x)"
  by (cases x) (simp_all add: clean_int_of_fl split: option.splits list.splits, simp_all add: clean_def malformed_def)

lemma clean_np_asarray: "clean (np_asarray L x)"
  by (cases x) (simp_all add: clean_def malformed_def split: option.splits)

lemma clean_emap: "(\<And>x. clean (f x)) \<Longrightarrow> clean (emap f xs)"
  by (induction xs) (simp_all add: clean_ebind)

lemma clean_shape: "clean (shape_last a)" "clean (shape_first a)"
  by (simp_all add: shape_last_def shape_first_def split: list.splits)

lemma clean_n_rng_of: "clean (n_rng_of L slc data)"
  unfolding n_rng_of_def
  by (intro clean_ebind clean_py_contains clean_py_getitem clean_py_getitem0)
     (auto intro!: clean_ebind clean_py_contains clean_py_getitem clean_py_getitem0 clean_shape
        clean_py_get clean_py_int split: pyval.splits)

lemma clean_az_deg_of: "clean (az_deg_of L slc data)"
  unfolding az_deg_of_def
  by (intro clean_ebind clean_py_contains)
     (auto intro!: clean_ebind clean_py_contains clean_py_getitem clean_py_iter clean_shape
        clean_emap clean_py_float)

lemma clean_check_dims: "clean (check_dims a b c)"
  by (simp add: check_dims_def clean_def malformed_def)

lemma clean_to_dataset: "clean (to_dataset n cs)"
  by (cases n) (simp_all add: clean_def malformed_def)

lemma clean_get_data_and_axes:
  assumes "py_contains slc ''data'' = Inr True"
  shows "clean (get_data_and_axes L slc)"
  unfolding get_data_and_axes_def
  by (simp add: assms Let_def)
     (intro clean_ebind clean_py_getitem clean_np_asarray clean_py_get clean_py_float
        clean_n_rng_of clean_az_deg_of clean_Inr)

lemma clean_read_azi:
  assumes "extract_slice tree = Inr slc" "py_contains slc ''data'' = Inr True"
  shows "clean (read_azi L tree)"
  unfolding read_azi_def
  by (simp add: assms)
     (auto intro!: clean_ebind clean_get_data_and_axes[OF assms(2)] clean_py_get
        clean_check_dims clean_to_dataset)

lemma lookup_None_dict:
  "lookup (PDict d) k = None \<longleftrightarrow> map_of d k = None \<or> map_of d k = Some PNone"
  by (auto simp: lookup_def split: option.splits pyval.splits)

lemma lookup_Some_dict:
  "lookup (PDict d) k = Some v \<longleftrightarrow> map_of d k = Some v \<and> v \<noteq> PNone"
  by (auto simp: lookup_def split: option.splits pyval.splits)

lemma py_get_lookup:
  "py_get (PDict d) k PNone = Inr (case lookup (PDict d) k of None \<Rightarrow> PNone | Some v \<Rightarrow> v)"
  by (auto simp: lookup_def split: option.splits pyval.splits)

lemma is_dictE: "is_dict x \<Longrightarrow> \<exists>d. x = PDict d"
  by (cases x) simp_all

lemma not_malformed:
  "clean m \<Longrightarrow> m \<noteq> Inl (ValueError ''Estructura Rainbow inesperada: falta 'volume'.'')
     \<and> m \<noteq> Inl (ValueError ''Estructura Rainbow inesperada: falta 'scan'.'')
     \<and> m \<noteq> Inl (ValueError ''Estructura Rainbow inesperada: falta 'slice'.'')
     \<and> m \<noteq> Inl (ValueError ''Slice Rainbow sin 'data' decodificado.'')"
  by (auto simp: clean_def malformed_def)

text \<open>
  Claim C4, as amended. On a tree whose nodes along the path are mappings (the tree itself
  and, where present, its volume, the volume's scan and the scan's slice), the extractor
  fails with the error that names volume, scan or slice exactly when that key is the first
  one absent on the path volume, scan, slice, and with the error that names data exactly
  when the slice is reached and has no data entry; in every other case none of these four
  errors is raised. An entry that holds None counts as absent.
\<close>

theorem read_azi_malformed:
  assumes "path_mappings tree"
  shows "(read_azi L tree = Inl (ValueError ''Estructura Rainbow inesperada: falta 'volume'.'')
            \<longleftrightarrow> lookup tree ''volume'' = None)
     \<and> (read_azi L tree = Inl (ValueError ''Estructura Rainbow inesperada: falta 'scan'.'')
            \<longleftrightarrow> (\<exists>vol. lookup tree ''volume'' = Some vol \<and> lookup vol ''scan'' = None))
     \<and> (read_azi L tree = Inl (ValueError ''Estructura Rainbow inesperada: falta 'slice'.'')
            \<longleftrightarrow> (\<exists>vol scan. lookup tree ''volume'' = Some vol \<and> lookup vol ''scan'' = Some scan
                   \<and> lookup scan ''slice'' = None))
     \<and> (read_azi L tree = Inl (ValueError ''Slice Rainbow sin 'data' decodificado.'')
            \<longleftrightarrow> (\<exists>vol scan d. lookup tree ''volume'' = Some vol \<and> lookup vol ''scan'' = Some scan
                   \<and> lookup scan ''slice'' = Some (PDict d) \<and> map_of d ''data'' = None))"
proof -
  from assms obtain t where t: "tree = PDict t"
    by (auto simp: path_mappings_def dest: is_dictE)
  show ?thesis
  proof (cases "lookup tree ''volume''")
    case None
    then have "map_of t ''volume'' = None \<or> map_of t ''volume'' = Some PNone"
      by (simp add: t lookup_None_dict)
    then have "extract_slice tree
        = Inl (ValueError ''Estructura Rainbow inesperada: falta 'volume'.'')"
      by (auto simp: extract_slice_def t)
    then have "read_azi L tree
        = Inl (ValueError ''Estructura Rainbow inesperada: falta 'volume'.'')"
      by (simp add: read_azi_def)
    with None show ?thesis
      by simp
  next
    case (Some vol)
    with assms obtain vd where vd: "vol = PDict vd"
      by (auto simp: path_mappings_def dest: is_dictE)
    from Some have mv: "map_of t ''volume'' = Some (PDict vd)"
      by (simp add: t vd lookup_Some_dict)
    show ?thesis
    proof (cases "lookup vol ''scan''")
      case None
      then have "map_of vd ''scan'' = None \<or> map_of vd ''scan'' = Some PNone"
        by (simp add: vd lookup_None_dict)
      then have "extract_slice tree
          = Inl (ValueError ''Estructura Rainbow inesperada: falta 'scan'.'')"
        by (auto simp: extract_slice_def t mv)
      then have "read_azi L tree
          = Inl (ValueError ''Estructura Rainbow inesperada: falta 'scan'.'')"
        by (simp add: read_azi_def)
      with None Some show ?thesis
        by simp
    next
      case scan: (Some scan)
      with assms Some obtain sd where sd: "scan = PDict sd"
        by (auto simp: path_mappings_def dest: is_dictE)
      from scan have ms: "map_of vd ''scan'' = Some (PDict sd)"
        by (simp add: vd sd lookup_Some_dict)
      show ?thesis
      proof (cases "lookup scan ''slice''")
        case None
        then have "map_of sd ''slice'' = None \<or> map_of sd ''slice'' = Some PNone"
          by (simp add: sd lookup_None_dict)
        then have "extract_slice tree
            = Inl (ValueError ''Estructura Rainbow inesperada: falta 'slice'.'')"
          by (auto simp: extract_slice_def t mv ms)
        then have "read_azi L tree
            = Inl (ValueError ''Estructura Rainbow inesperada: falta 'slice'.'')"
          by (simp add: read_azi_def)
        with None Some scan show ?thesis
          by simp
      next
        case slc: (Some slc)
        with assms Some scan obtain d where d: "slc = PDict d"
          by (auto simp: path_mappings_def dest: is_dictE)
        from slc have ml: "map_of sd ''slice'' = Some (PDict d)"
          by (simp add: sd d lookup_Some_dict)
        have es: "extract_slice tree = Inr slc"
          by (simp add: extract_slice_def t mv ms ml d)
        show ?thesis
        proof (cases "map_of d ''data''")
          case None
          then have "read_azi L tree = Inl (ValueError ''Slice Rainbow sin 'data' decodificado.'')"
            by (simp add: read_azi_def es get_data_and_axes_def d)
          with None Some scan slc d show ?thesis
            by simp
        next
          case dv: (Some dv)
          then have "py_contains slc ''data'' = Inr True"
            by (simp add: d)
          from not_malformed[OF clean_read_azi[OF es this, of L]] Some scan slc d dv
          show ?thesis
            by simp
        qed
      qed
    qed
  qed
qed

theorem read_azi_malformed_witness:
  "path_mappings demo_tree_no_scan
   \<and> lookup demo_tree_no_scan ''volume'' = Some (PDict [(''@version'', PStr ''5.43'')])
   \<and> lookup (PDict [(''@version'', PStr ''5.43'')]) ''scan'' = None
   \<and> read_azi exact_libs demo_tree_no_scan
       = Inl (ValueError ''Estructura Rainbow inesperada: falta 'scan'.'')
   \<and> path_mappings demo_tree
   \<and> read_azi exact_libs demo_tree = Inr demo_read"
proof -
  have p: "path_mappings demo_tree_no_scan"
    by (simp add: path_mappings_def demo_tree_no_scan_def lookup_def)
  have l: "lookup demo_tree_no_scan ''volume'' = Some (PDict [(''@version'', PStr ''5.43'')])"
    "lookup (PDict [(''@version'', PStr ''5.43'')]) ''scan'' = None"
    by (simp_all add: demo_tree_no_scan_def lookup_def)
  from read_azi_malformed[OF p, of exact_libs] l
  have r: "read_azi exact_libs demo_tree_no_scan
       = Inl (ValueError ''Estructura Rainbow inesperada: falta 'scan'.'')"
    by blast
  have q: "path_mappings demo_tree"
    by (simp add: path_mappings_def demo_tree_def demo_slice_def lookup_def)
  show ?thesis
    using p l r q demo_tree_read by simp
qed

text \<open>
  The claim as stated, for every decoded tree, fails on a node that is no mapping. A volume
  that is a string has no scan, yet the extractor raises AttributeError, none of the four
  errors. A slice that is a list of slices, each with its data block, lacks no key and no
  data, yet the extractor raises the error that names data.
\<close>

theorem read_azi_malformed_counterexample:
  "lookup (PDict [(''volume'', PStr ''abc'')]) ''volume'' = Some (PStr ''abc'')
   \<and> lookup (PStr ''abc'') ''scan'' = None
   \<and> read_azi exact_libs (PDict [(''volume'', PStr ''abc'')]) = Inl AttributeError
   \<and> \<not> malformed AttributeError
   \<and> extract_slice (PDict [(''volume'', PDict [(''scan'', PDict
         [(''slice'', PList [PDict [(''data'', PArr [1, 1] [Fin 10])]])])])])
       = Inr (PList [PDict [(''data'', PArr [1, 1] [Fin 10])]])
   \<and> read_azi exact_libs (PDict [(''volume'', PDict [(''scan'', PDict
         [(''slice'', PList [PDict [(''data'', PArr [1, 1] [Fin 10])]])])])])
       = Inl (ValueError ''Slice Rainbow sin 'data' decodificado.'')"
  by (simp add: lookup_def read_azi_def extract_slice_def get_data_and_axes_def malformed_def)

section \<open>Gridding a scan without finite coordinates\<close>

lemma transform_length:
  "transform t lon lat = (X, Y) \<Longrightarrow> length X = min (length lon) (length lat) \<and> length Y = length X"
  by (auto simp: transform_def)

lemma nanmin_all_nan:
  "xs \<noteq> [] \<Longrightarrow> list_all isnan xs \<Longrightarrow> nanmin xs = Inr NaN"
  by (simp add: nanmin_def list_all_iff filter_empty_conv[THEN iffD2])

lemma nanmax_all_nan:
  "xs \<noteq> [] \<Longrightarrow> list_all isnan xs \<Longrightarrow> nanmax xs = Inr NaN"
  by (simp add: nanmax_def list_all_iff filter_empty_conv[THEN iffD2])

lemma nanmin_nonempty: "xs \<noteq> [] \<Longrightarrow> \<exists>m. nanmin xs = Inr m"
  by (simp add: nanmin_def split: list.splits)

lemma nanmax_nonempty: "xs \<noteq> [] \<Longrightarrow> \<exists>m. nanmax xs = Inr m"
  by (simp add: nanmax_def split: list.splits)

lemma fadd_NaN [simp]: "fadd r NaN y = NaN" "fadd r x NaN = NaN"
  by (cases x; simp)+

lemma fsub_NaN [simp]: "fsub r NaN y = NaN" "fsub r x NaN = NaN"
  by (simp_all add: fsub_def)

lemma fdiv_NaN [simp]: "fdiv r NaN y = NaN" "fdiv r x NaN = NaN"
  by (cases x; simp)+

lemma arange_NaN [simp]:
  "arange r NaN stop step = Inl (ValueError ''arange: cannot compute length'')"
  by (simp add: arange_def)

text \<open>
  Claim C1 says that a scan with no sample of finite value and coordinates is gridded to
  nodata without an error. The code does that only when the coordinates still give finite
  axes. When every projected x is NaN (the radar position is unknown, say), the candidate set
  is empty, \<open>nanmin\<close> and \<open>nanmax\<close> return NaN, and \<open>arange\<close> raises a ValueError
  before the branch for the empty candidate set is reached.
\<close>

theorem polar_to_grid_2d_nan_coordinates:
  assumes "ds_name ds \<notin> {PStr ''lon'', PStr ''lat'', PStr ''alt''}"
    and "from_epsg L epsg = Some t"
    and "transform t (elems (ds_lon ds)) (elems (ds_lat ds)) = (X, Y)"
    and "X \<noteq> []"
    and "list_all isnan X"
  shows "candidates (elems (ds_values ds)) X Y = []
     \<and> polar_to_grid_2d L ds epsg dx dy buffer_m nodata
         = Inl (ValueError ''arange: cannot compute length'')"
proof -
  have c: "candidates (elems (ds_values ds)) X Y = []"
  proof -
    have "\<not> isfinite x" if "x \<in> set X" for x
    proof -
      from that assms(5) have "isnan x"
        by (simp add: list_all_iff)
      then show ?thesis
        by (cases x) simp_all
    qed
    moreover have "x \<in> set X" if "(a, x, y) \<in> set (zip (elems (ds_values ds)) (zip X Y))"
      for a x y
      using set_zip_leftD[OF set_zip_rightD[OF that]] .
    ultimately show ?thesis
      by (auto simp: candidates_def filter_empty_conv)
  qed
  from transform_length[OF assms(3)] assms(4) have "Y \<noteq> []"
    by auto
  then obtain ymin ymax where y: "nanmin Y = Inr ymin" "nanmax Y = Inr ymax"
    using nanmin_nonempty nanmax_nonempty by blast
  have "polar_to_grid_2d L ds epsg dx dy buffer_m nodata
         = Inl (ValueError ''arange: cannot compute length'')"
    using assms(1)
    by (simp add: polar_to_grid_2d_def assms(2,3) nanmin_all_nan[OF assms(4,5)]
        nanmax_all_nan[OF assms(4,5)] y Let_def)
  with c show ?thesis
    by simp
qed

theorem polar_to_grid_2d_nan_coordinates_witness:
  "from_epsg exact_libs 32717 = Some demo_proj
   \<and> transform demo_proj [NaN, NaN] [NaN, NaN] = ([NaN, NaN], [NaN, NaN])
   \<and> candidates [Fin 10, Fin 20] [NaN, NaN] [NaN, NaN] = []
   \<and> polar_to_grid_2d exact_libs (demo_lonlat [Fin 10, Fin 20] [NaN, NaN] [NaN, NaN]) 32717
         (Fin 500) (Fin 500) (Fin 1000) (Fin (- 9999))
       = Inl (ValueError ''arange: cannot compute length'')"
proof -
  have 1: "ds_name (demo_lonlat [Fin 10, Fin 20] [NaN, NaN] [NaN, NaN])
             \<notin> {PStr ''lon'', PStr ''lat'', PStr ''alt''}"
    by (simp add: demo_lonlat_def)
  have 2: "from_epsg exact_libs 32717 = Some demo_proj"
    by (simp add: exact_libs_def)
  have 3: "transform demo_proj (elems (ds_lon (demo_lonlat [Fin 10, Fin 20] [NaN, NaN] [NaN, NaN])))
             (elems (ds_lat (demo_lonlat [Fin 10, Fin 20] [NaN, NaN] [NaN, NaN])))
           = ([NaN, NaN], [NaN, NaN])"
    by (simp add: demo_lonlat_def transform_def demo_proj_def)
  have 4: "[NaN, NaN] \<noteq> []" "list_all isnan [NaN, NaN]"
    by simp_all
  from polar_to_grid_2d_nan_coordinates[OF 1 2 3 4, of "Fin 500" "Fin 500" "Fin 1000" "Fin (- 9999)"]
  show ?thesis
    using 2 3 by (simp add: demo_lonlat_def)
qed

section \<open>The cells of the grid\<close>

lemma concat_uniform_length:
  "(\<And>y. y \<in> set ys \<Longrightarrow> length (f y) = n) \<Longrightarrow> length (concat (map f ys)) = length ys * n"
  by (induction ys) simp_all

lemma concat_uniform_nth:
  "(\<And>y. y \<in> set ys \<Longrightarrow> length (f y) = n) \<Longrightarrow> j < length ys \<Longrightarrow> i < n
     \<Longrightarrow> concat (map f ys) ! (j * n + i) = f (ys ! j) ! i"
proof (induction ys arbitrary: j)
  case Nil
  then show ?case by simp
next
  case (Cons y ys)
  show ?case
  proof (cases j)
    case 0
    with Cons.prems show ?thesis
      by (simp add: nth_append)
  next
    case (Suc k)
    have "concat (map f (y # ys)) ! (j * n + i) = concat (map f ys) ! (k * n + i)"
      using Cons.prems(1)[of y] by (simp add: Suc nth_append)
    also have "\<dots> = f (ys ! k) ! i"
      using Cons.prems Suc by (intro Cons.IH) auto
    finally show ?thesis
      by (simp add: Suc)
  qed
qed

lemma cell_index: "j < ny \<Longrightarrow> i < nx \<Longrightarrow> j * nx + i < ny * (nx::nat)"
proof -
  assume a: "j < ny" "i < nx"
  then have "j * nx + i < j * nx + nx" by simp
  also have "\<dots> = Suc j * nx" by simp
  also have "\<dots> \<le> ny * nx" using a(1) by (intro mult_le_mono1) simp
  finally show ?thesis .
qed

lemma meshgrid_cells:
  assumes "meshgrid xs ys = (XX, YY)"
  shows "length (zip (elems XX) (elems YY)) = length ys * length xs"
    and "j < length ys \<Longrightarrow> i < length xs
          \<Longrightarrow> zip (elems XX) (elems YY) ! (j * length xs + i) = (xs ! i, ys ! j)"
proof -
  from assms have X: "elems XX = concat (map (\<lambda>y. xs) ys)"
    and Y: "elems YY = concat (map (\<lambda>y. map (\<lambda>x. y) xs) ys)"
    by (auto simp: meshgrid_def)
  have lx: "length (elems XX) = length ys * length xs"
    unfolding X by (rule concat_uniform_length) simp
  have ly: "length (elems YY) = length ys * length xs"
    unfolding Y by (rule concat_uniform_length) simp
  show "length (zip (elems XX) (elems YY)) = length ys * length xs"
    by (simp add: lx ly)
  assume ji: "j < length ys" "i < length xs"
  have k: "j * length xs + i < length ys * length xs"
    using ji by (rule cell_index)
  have 1: "elems XX ! (j * length xs + i) = xs ! i"
    unfolding X using ji by (subst concat_uniform_nth) simp_all
  have 2: "elems YY ! (j * length xs + i) = ys ! j"
    unfolding Y using ji by (subst concat_uniform_nth) simp_all
  show "zip (elems XX) (elems YY) ! (j * length xs + i) = (xs ! i, ys ! j)"
    using k by (simp add: lx ly 1 2)
qed

lemma polar_to_grid_2d_Inr:
  assumes "polar_to_grid_2d L ds epsg dx dy buffer_m nodata = Inr g"
  shows "\<exists>t X Y xmin xmax ymin ymax.
       ds_name ds \<notin> {PStr ''lon'', PStr ''lat'', PStr ''alt''}
     \<and> from_epsg L epsg = Some t
     \<and> transform t (elems (ds_lon ds)) (elems (ds_lat ds)) = (X, Y)
     \<and> nanmin X = Inr xmin \<and> nanmax X = Inr xmax
     \<and> nanmin Y = Inr ymin \<and> nanmax Y = Inr ymax
     \<and> arange (rnd L) (fsub (rnd L) xmin buffer_m)
          (fadd (rnd L) (fadd (rnd L) xmax buffer_m) dx) dx = Inr (g_x g)
     \<and> arange (rnd L) (fsub (rnd L) ymin buffer_m)
          (fadd (rnd L) (fadd (rnd L) ymax buffer_m) dy) dy = Inr (g_y g)
     \<and> shape (g_out g) = [length (g_y g), length (g_x g)]
     \<and> (if candidates (elems (ds_values ds)) X Y = []
         then Inr (replicate (length (g_y g) * length (g_x g)) (to_f32 L nodata))
         else emap (nearest_value L (map snd (candidates (elems (ds_values ds)) X Y))
                      (map fst (candidates (elems (ds_values ds)) X Y)) nodata)
                (zip (elems (fst (meshgrid (g_x g) (g_y g))))
                     (elems (snd (meshgrid (g_x g) (g_y g))))))
         = Inr (elems (g_out g))
     \<and> to_dataset (ds_name ds) [''x'', ''y''] = Inr ()"
proof -
  from assms have n: "ds_name ds \<notin> {PStr ''lon'', PStr ''lat'', PStr ''alt''}"
    by (auto simp: polar_to_grid_2d_def split: if_splits)
  from assms n obtain t where t: "from_epsg L epsg = Some t"
    by (cases "from_epsg L epsg") (auto simp: polar_to_grid_2d_def Let_def)
  obtain X Y where xy: "transform t (elems (ds_lon ds)) (elems (ds_lat ds)) = (X, Y)"
    by (cases "transform t (elems (ds_lon ds)) (elems (ds_lat ds))") auto
  from assms show ?thesis
    unfolding polar_to_grid_2d_def
    using n t xy
    by (auto simp: Let_def ebind_eq_Inr split: prod.splits if_splits)
qed

lemma nearest_value_Inr:
  "nearest_value L pts vals nodata q = Inr w \<longleftrightarrow>
     kd_query L pts q < length vals
     \<and> w = (let u = to_f32 L (vals ! kd_query L pts q)
            in if isfinite u then u else to_f32 L nodata)"
  by (auto simp: nearest_value_def Let_def)

lemma scan_nearest_min:
  "pts \<noteq> [] \<Longrightarrow> scan_nearest pts q < length pts
     \<and> (\<forall>p \<in> set pts. dist2 (pts ! scan_nearest pts q) q \<le> dist2 p q)"
proof (induction pts q rule: scan_nearest.induct)
  case (1 q)
  then show ?case by simp
next
  case (2 p q)
  then show ?case by simp
next
  case (3 p p' ps q)
  let ?j = "scan_nearest (p' # ps) q"
  from 3 have ih: "?j < length (p' # ps)"
    "\<forall>u \<in> set (p' # ps). dist2 ((p' # ps) ! ?j) q \<le> dist2 u q"
    by simp_all
  show ?case
  proof (cases "dist2 p q \<le> dist2 ((p' # ps) ! ?j) q")
    case True
    then have s: "scan_nearest (p # p' # ps) q = 0"
      by (simp add: Let_def)
    have "dist2 p q \<le> dist2 u q" if "u \<in> set (p # p' # ps)" for u
    proof (cases "u = p")
      case True
      then show ?thesis by simp
    next
      case False
      with that have "u \<in> set (p' # ps)" by simp
      with ih(2) have "dist2 ((p' # ps) ! ?j) q \<le> dist2 u q" by blast
      with True show ?thesis by simp
    qed
    then show ?thesis
      unfolding s by simp
  next
    case False
    then have s: "scan_nearest (p # p' # ps) q = Suc ?j"
      by (simp add: Let_def)
    have n: "(p # p' # ps) ! Suc ?j = (p' # ps) ! ?j"
      by simp
    have "dist2 ((p' # ps) ! ?j) q \<le> dist2 u q" if "u \<in> set (p # p' # ps)" for u
    proof (cases "u = p")
      case True
      with False show ?thesis by simp
    next
      case False
      with that have "u \<in> set (p' # ps)" by simp
      with ih(2) show ?thesis by blast
    qed
    then show ?thesis
      unfolding s n using ih(1) by simp
  qed
qed

lemma kd_nearest_exact_libs: "kd_nearest exact_libs"
proof -
  have k: "kd_query exact_libs = scan_nearest"
    by (simp add: exact_libs_def)
  show ?thesis
    unfolding kd_nearest_def k using scan_nearest_min by blast
qed

lemma candidates_finite:
  "s \<in> set (candidates v X Y) \<Longrightarrow> isfinite (fst (snd s)) \<and> isfinite (snd (snd s))"
  by (auto simp: candidates_def)

lemma kd_nearest_cands:
  assumes k: "kd_nearest L" and c: "candidates v X Y = cands" and n: "cands \<noteq> []"
    and q: "isfinite x" "isfinite y"
  shows "kd_query L (map snd cands) (x, y) < length cands
     \<and> (\<forall>s \<in> set cands.
          dist2 (snd (cands ! kd_query L (map snd cands) (x, y))) (x, y) \<le> dist2 (snd s) (x, y))"
proof -
  let ?pts = "map snd cands"
  have f: "\<forall>p \<in> set ?pts. isfinite (fst p) \<and> isfinite (snd p)"
    using candidates_finite[of _ v X Y] c by auto
  have ne: "?pts \<noteq> []"
    using n by simp
  from k[unfolded kd_nearest_def, THEN spec, of ?pts, THEN spec, of "(x, y)"] ne f q
  have 12: "kd_query L ?pts (x, y) < length ?pts
    \<and> (\<forall>p \<in> set ?pts. dist2 (?pts ! kd_query L ?pts (x, y)) (x, y) \<le> dist2 p (x, y))"
    by (simp only: fst_conv snd_conv) blast
  from 12 have 1: "kd_query L ?pts (x, y) < length ?pts" ..
  from 12 have 2: "\<forall>p \<in> set ?pts. dist2 (?pts ! kd_query L ?pts (x, y)) (x, y) \<le> dist2 p (x, y)" ..
  from 1 have l: "kd_query L ?pts (x, y) < length cands"
    by simp
  have "dist2 (snd (cands ! kd_query L ?pts (x, y))) (x, y) \<le> dist2 (snd s) (x, y)"
    if "s \<in> set cands" for s
  proof -
    from that have "snd s \<in> set ?pts" by simp
    with 2 have "dist2 (?pts ! kd_query L ?pts (x, y)) (x, y) \<le> dist2 (snd s) (x, y)"
      by blast
    then show ?thesis
      using l by simp
  qed
  with l show ?thesis by blast
qed

text \<open>
  Claim C6. When the candidate set is not empty, the candidates are exactly the samples whose
  value and two projected coordinates are finite; the output has one cell per pair of axis
  values, and the cell at row \<open>j\<close>, column \<open>i\<close> holds the value of the one candidate the
  k-d tree returns for the centre \<open>(x[i], y[j])\<close>, cast to float32, or the sentinel (cast
  likewise) when the cast value is not finite. With a tree that answers as SciPy documents,
  that candidate is a nearest one: no candidate is closer to the centre. With a single
  candidate every cell holds that candidate's value.
\<close>

theorem polar_to_grid_2d_nearest:
  assumes "polar_to_grid_2d L ds epsg dx dy buffer_m nodata = Inr g"
    and "from_epsg L epsg = Some t"
    and "transform t (elems (ds_lon ds)) (elems (ds_lat ds)) = (X, Y)"
    and "candidates (elems (ds_values ds)) X Y = cands"
    and "cands \<noteq> []"
    and "kd_nearest L"
  shows "(\<forall>s. s \<in> set cands \<longleftrightarrow>
             s \<in> set (zip (elems (ds_values ds)) (zip X Y))
             \<and> isfinite (fst s) \<and> isfinite (fst (snd s)) \<and> isfinite (snd (snd s)))
     \<and> shape (g_out g) = [length (g_y g), length (g_x g)]
     \<and> length (elems (g_out g)) = length (g_y g) * length (g_x g)
     \<and> (\<forall>j < length (g_y g). \<forall>i < length (g_x g).
           kd_query L (map snd cands) (g_x g ! i, g_y g ! j) < length cands
           \<and> elems (g_out g) ! (j * length (g_x g) + i)
               = (let u = to_f32 L (fst (cands ! kd_query L (map snd cands) (g_x g ! i, g_y g ! j)))
                  in if isfinite u then u else to_f32 L nodata))
     \<and> (\<forall>j < length (g_y g). \<forall>i < length (g_x g).
           isfinite (g_x g ! i) \<and> isfinite (g_y g ! j) \<longrightarrow>
           (\<forall>s \<in> set cands.
              dist2 (snd (cands ! kd_query L (map snd cands) (g_x g ! i, g_y g ! j)))
                    (g_x g ! i, g_y g ! j)
                \<le> dist2 (snd s) (g_x g ! i, g_y g ! j)))
     \<and> (\<forall>a p. cands = [(a, p)] \<longrightarrow>
           (\<forall>k < length (elems (g_out g)).
              elems (g_out g) ! k
                = (let u = to_f32 L a in if isfinite u then u else to_f32 L nodata)))"
proof -
  obtain XX YY where m: "meshgrid (g_x g) (g_y g) = (XX, YY)"
    by (cases "meshgrid (g_x g) (g_y g)") auto
  from polar_to_grid_2d_Inr[OF assms(1)] assms(2,3,4,5)
  have sh: "shape (g_out g) = [length (g_y g), length (g_x g)]"
    and em: "emap (nearest_value L (map snd cands) (map fst cands) nodata)
               (zip (elems XX) (elems YY)) = Inr (elems (g_out g))"
    by (auto simp: m)
  note mc = meshgrid_cells[OF m]
  from em[unfolded emap_Inr]
  have e1: "length (elems (g_out g)) = length (zip (elems XX) (elems YY))"
    and e2: "\<forall>k < length (zip (elems XX) (elems YY)).
        nearest_value L (map snd cands) (map fst cands) nodata (zip (elems XX) (elems YY) ! k)
          = Inr (elems (g_out g) ! k)"
    by blast+
  from e1 have len: "length (elems (g_out g)) = length (g_y g) * length (g_x g)"
    by (simp only: mc(1))
  from e2 have cell: "\<And>k. k < length (g_y g) * length (g_x g) \<Longrightarrow>
        nearest_value L (map snd cands) (map fst cands) nodata (zip (elems XX) (elems YY) ! k)
          = Inr (elems (g_out g) ! k)"
    by (simp only: mc(1))
  have 1: "\<forall>s. s \<in> set cands \<longleftrightarrow>
             s \<in> set (zip (elems (ds_values ds)) (zip X Y))
             \<and> isfinite (fst s) \<and> isfinite (fst (snd s)) \<and> isfinite (snd (snd s))"
    unfolding assms(4)[symmetric] candidates_def by auto
  have 2: "kd_query L (map snd cands) (g_x g ! i, g_y g ! j) < length cands
           \<and> elems (g_out g) ! (j * length (g_x g) + i)
               = (let u = to_f32 L (fst (cands ! kd_query L (map snd cands) (g_x g ! i, g_y g ! j)))
                  in if isfinite u then u else to_f32 L nodata)"
    if ji: "j < length (g_y g)" "i < length (g_x g)" for j i
  proof -
    from cell[OF cell_index[OF ji]] mc(2)[OF ji]
    have "nearest_value L (map snd cands) (map fst cands) nodata (g_x g ! i, g_y g ! j)
            = Inr (elems (g_out g) ! (j * length (g_x g) + i))"
      by simp
    then show ?thesis
      by (simp add: nearest_value_Inr)
  qed
  have 3: "elems (g_out g) ! k = (let u = to_f32 L a in if isfinite u then u else to_f32 L nodata)"
    if c: "cands = [(a, p)]" and k: "k < length (elems (g_out g))" for a p k
  proof -
    from cell[of k] k len
    have "nearest_value L (map snd cands) (map fst cands) nodata (zip (elems XX) (elems YY) ! k)
            = Inr (elems (g_out g) ! k)"
      by simp
    then show ?thesis
      by (simp add: nearest_value_Inr c)
  qed
  have 4: "\<forall>s \<in> set cands.
              dist2 (snd (cands ! kd_query L (map snd cands) (g_x g ! i, g_y g ! j)))
                    (g_x g ! i, g_y g ! j)
                \<le> dist2 (snd s) (g_x g ! i, g_y g ! j)"
    if "isfinite (g_x g ! i)" "isfinite (g_y g ! j)" for j i
    using kd_nearest_cands[OF assms(6,4,5) that] by blast
  from 1 sh len 2 3 4 show ?thesis
    by blast
qed

lemma demo_transform:
  "transform demo_proj [Fin 0, Fin 500] [Fin 0, Fin 0] = ([Fin 0, Fin 500], [Fin 0, Fin 0])"
  "transform demo_proj [Fin 0, Fin 500] [Fin 0, Fin 95] = ([Fin 0, PInf], [Fin 0, PInf])"
  by (simp_all add: transform_def demo_proj_def)

lemma demo_extent:
  "nanmin [Fin 0, Fin 500] = Inr (Fin 0)" "nanmax [Fin 0, Fin 500] = Inr (Fin 500)"
  "nanmin [Fin 0, Fin 0] = Inr (Fin 0)" "nanmax [Fin 0, Fin 0] = Inr (Fin 0)"
  "nanmin [Fin 0, PInf] = Inr (Fin 0)" "nanmax [Fin 0, PInf] = Inr PInf"
  by (simp_all add: nanmin_def nanmax_def fmin2_def fmax2_def)

lemma demo_axes:
  "arange Fin (Fin (- 250)) (Fin 1250) (Fin 500) = Inr [Fin (- 250), Fin 250, Fin 750]"
  "arange Fin (Fin (- 250)) (Fin 750) (Fin 500) = Inr [Fin (- 250), Fin 250]"
  by (simp_all add: arange_def arange_elem_def fsub_def max_intp_def upt_conv_Cons)

lemma demo_cands:
  "candidates [Fin 10, Fin 20] [Fin 0, Fin 500] [Fin 0, Fin 0]
     = [(Fin 10, Fin 0, Fin 0), (Fin 20, Fin 500, Fin 0)]"
  "candidates [Fin 10, NaN] [Fin 0, Fin 500] [Fin 0, Fin 0] = [(Fin 10, Fin 0, Fin 0)]"
  "candidates [NaN, PInf] [Fin 0, Fin 500] [Fin 0, Fin 0] = []"
  by (simp_all add: candidates_def)

lemma demo_mesh:
  "meshgrid [Fin (- 250), Fin 250, Fin 750] [Fin (- 250), Fin 250]
     = (\<lparr>shape = [2, 3], elems = [Fin (- 250), Fin 250, Fin 750, Fin (- 250), Fin 250, Fin 750]\<rparr>,
        \<lparr>shape = [2, 3], elems = [Fin (- 250), Fin (- 250), Fin (- 250), Fin 250, Fin 250, Fin 250]\<rparr>)"
  by (simp add: meshgrid_def)

lemma exact_libs_sel:
  "rnd exact_libs = Fin" "to_f32 exact_libs = (\<lambda>x. x)" "kd_query exact_libs = scan_nearest"
  "from_epsg exact_libs 32717 = Some demo_proj" "from_epsg exact_libs 1 = None"
  by (simp_all add: exact_libs_def)

lemma demo_extent_arith:
  "fsub Fin (Fin 0) (Fin 250) = Fin (- 250)"
  "fadd Fin (fadd Fin (Fin 500) (Fin 250)) (Fin 500) = Fin 1250"
  "fadd Fin (fadd Fin (Fin 0) (Fin 250)) (Fin 500) = Fin 750"
  by (simp_all add: fsub_def)

lemma demo_str: "str_int 32717 = ''32717''"
  by (simp add: str_int_def)

lemma demo_grid_run:
  "polar_to_grid_2d exact_libs (demo_lonlat [Fin 10, Fin 20] [Fin 0, Fin 500] [Fin 0, Fin 0])
     32717 (Fin 500) (Fin 500) (Fin 250) (Fin (- 9999))
   = Inr (demo_grid [Fin 10, Fin 10, Fin 20, Fin 10, Fin 10, Fin 20])"
  unfolding polar_to_grid_2d_def
  by (simp add: demo_lonlat_def exact_libs_sel demo_transform demo_extent demo_extent_arith
      demo_axes demo_cands demo_mesh nearest_value_def Let_def demo_str demo_grid_def
      del: fadd.simps)

lemma demo_grid_run_one:
  "polar_to_grid_2d exact_libs (demo_lonlat [Fin 10, NaN] [Fin 0, Fin 500] [Fin 0, Fin 0])
     32717 (Fin 500) (Fin 500) (Fin 250) (Fin (- 9999))
   = Inr (demo_grid [Fin 10, Fin 10, Fin 10, Fin 10, Fin 10, Fin 10])"
  unfolding polar_to_grid_2d_def
  by (simp add: demo_lonlat_def exact_libs_sel demo_transform demo_extent demo_extent_arith
      demo_axes demo_cands demo_mesh nearest_value_def Let_def demo_str demo_grid_def
      del: fadd.simps)

lemma demo_grid_run_empty:
  "polar_to_grid_2d exact_libs (demo_lonlat [NaN, PInf] [Fin 0, Fin 500] [Fin 0, Fin 0])
     32717 (Fin 500) (Fin 500) (Fin 250) (Fin (- 9999))
   = Inr (demo_grid (replicate 6 (Fin (- 9999))))"
  unfolding polar_to_grid_2d_def
  by (simp add: demo_lonlat_def exact_libs_sel demo_transform demo_extent demo_extent_arith
      demo_axes demo_cands demo_str demo_grid_def Let_def numeral_eq_Suc
      del: fadd.simps)

lemma demo_grid_run_inf:
  "polar_to_grid_2d exact_libs (demo_lonlat [Fin 10, Fin 20] [Fin 0, Fin 500] [Fin 0, Fin 95])
     32717 (Fin 500) (Fin 500) (Fin 250) (Fin (- 9999))
   = Inl (ValueError ''Maximum allowed size exceeded'')"
  unfolding polar_to_grid_2d_def
  by (simp add: demo_lonlat_def exact_libs_sel demo_transform demo_extent arange_def fsub_def finf_def)

theorem polar_to_grid_2d_nearest_witness:
  "polar_to_grid_2d exact_libs (demo_lonlat [Fin 10, Fin 20] [Fin 0, Fin 500] [Fin 0, Fin 0])
     32717 (Fin 500) (Fin 500) (Fin 250) (Fin (- 9999))
   = Inr (demo_grid [Fin 10, Fin 10, Fin 20, Fin 10, Fin 10, Fin 20])
   \<and> candidates [Fin 10, Fin 20] [Fin 0, Fin 500] [Fin 0, Fin 0]
       = [(Fin 10, Fin 0, Fin 0), (Fin 20, Fin 500, Fin 0)]
   \<and> kd_nearest exact_libs
   \<and> kd_query exact_libs [(Fin 0, Fin 0), (Fin 500, Fin 0)] (Fin 750, Fin (- 250)) = 1
   \<and> [Fin 10, Fin 10, Fin 20, Fin 10, Fin 10, Fin 20 :: fl] ! (0 * 3 + 2) = to_f32 exact_libs (Fin 20)
   \<and> dist2 (Fin 500, Fin 0) (Fin 750, Fin (- 250)) \<le> dist2 (Fin 0, Fin 0) (Fin 750, Fin (- 250))
   \<and> polar_to_grid_2d exact_libs (demo_lonlat [Fin 10, NaN] [Fin 0, Fin 500] [Fin 0, Fin 0])
       32717 (Fin 500) (Fin 500) (Fin 250) (Fin (- 9999))
     = Inr (demo_grid [Fin 10, Fin 10, Fin 10, Fin 10, Fin 10, Fin 10])
   \<and> candidates [Fin 10, NaN] [Fin 0, Fin 500] [Fin 0, Fin 0] = [(Fin 10, Fin 0, Fin 0)]
   \<and> [Fin 10, Fin 10, Fin 10, Fin 10, Fin 10, Fin 10 :: fl] ! 5 = to_f32 exact_libs (Fin 10)"
proof -
  have t: "from_epsg exact_libs 32717 = Some demo_proj"
    by (simp add: exact_libs_def)
  have x: "transform demo_proj
             (elems (ds_lon (demo_lonlat [Fin 10, Fin 20] [Fin 0, Fin 500] [Fin 0, Fin 0])))
             (elems (ds_lat (demo_lonlat [Fin 10, Fin 20] [Fin 0, Fin 500] [Fin 0, Fin 0])))
           = ([Fin 0, Fin 500], [Fin 0, Fin 0])"
    by (simp add: demo_lonlat_def demo_transform)
  have c: "candidates (elems (ds_values (demo_lonlat [Fin 10, Fin 20] [Fin 0, Fin 500] [Fin 0, Fin 0])))
             [Fin 0, Fin 500] [Fin 0, Fin 0]
           = [(Fin 10, Fin 0, Fin 0), (Fin 20, Fin 500, Fin 0)]"
    by (simp add: demo_lonlat_def demo_cands)
  have n: "[(Fin 10, Fin 0, Fin 0), (Fin 20, Fin 500, Fin 0)] \<noteq> []"
    by simp
  note th = polar_to_grid_2d_nearest[OF demo_grid_run t x c n kd_nearest_exact_libs]
  from th
  have "\<forall>j < length (g_y (demo_grid [Fin 10, Fin 10, Fin 20, Fin 10, Fin 10, Fin 20])).
        \<forall>i < length (g_x (demo_grid [Fin 10, Fin 10, Fin 20, Fin 10, Fin 10, Fin 20])).
           isfinite (g_x (demo_grid [Fin 10, Fin 10, Fin 20, Fin 10, Fin 10, Fin 20]) ! i)
           \<and> isfinite (g_y (demo_grid [Fin 10, Fin 10, Fin 20, Fin 10, Fin 10, Fin 20]) ! j) \<longrightarrow>
           (\<forall>s \<in> set [(Fin 10, Fin 0, Fin 0), (Fin 20, Fin 500, Fin 0)].
              dist2 (snd ([(Fin 10, Fin 0, Fin 0), (Fin 20, Fin 500, Fin 0)]
                      ! kd_query exact_libs
                          (map snd [(Fin 10, Fin 0, Fin 0), (Fin 20, Fin 500, Fin 0)])
                          (g_x (demo_grid [Fin 10, Fin 10, Fin 20, Fin 10, Fin 10, Fin 20]) ! i,
                           g_y (demo_grid [Fin 10, Fin 10, Fin 20, Fin 10, Fin 10, Fin 20]) ! j)))
                    (g_x (demo_grid [Fin 10, Fin 10, Fin 20, Fin 10, Fin 10, Fin 20]) ! i,
                     g_y (demo_grid [Fin 10, Fin 10, Fin 20, Fin 10, Fin 10, Fin 20]) ! j)
                \<le> dist2 (snd s)
                    (g_x (demo_grid [Fin 10, Fin 10, Fin 20, Fin 10, Fin 10, Fin 20]) ! i,
                     g_y (demo_grid [Fin 10, Fin 10, Fin 20, Fin 10, Fin 10, Fin 20]) ! j))"
    by (elim conjE)
  from this[THEN spec, of 0, THEN mp, THEN spec, of 2, THEN mp]
  have d: "dist2 (Fin 500, Fin 0) (Fin 750, Fin (- 250))
             \<le> dist2 (Fin 0, Fin 0) (Fin 750, Fin (- 250))"
    by (simp add: demo_grid_def exact_libs_sel)
  from th
  have "\<forall>j < length (g_y (demo_grid [Fin 10, Fin 10, Fin 20, Fin 10, Fin 10, Fin 20])).
        \<forall>i < length (g_x (demo_grid [Fin 10, Fin 10, Fin 20, Fin 10, Fin 10, Fin 20])).
          elems (g_out (demo_grid [Fin 10, Fin 10, Fin 20, Fin 10, Fin 10, Fin 20]))
            ! (j * length (g_x (demo_grid [Fin 10, Fin 10, Fin 20, Fin 10, Fin 10, Fin 20])) + i)
          = (let u = to_f32 exact_libs
                       (fst ([(Fin 10, Fin 0, Fin 0), (Fin 20, Fin 500, Fin 0)]
                          ! kd_query exact_libs
                              (map snd [(Fin 10, Fin 0, Fin 0), (Fin 20, Fin 500, Fin 0)])
                              (g_x (demo_grid [Fin 10, Fin 10, Fin 20, Fin 10, Fin 10, Fin 20]) ! i,
                               g_y (demo_grid [Fin 10, Fin 10, Fin 20, Fin 10, Fin 10, Fin 20]) ! j)))
             in if isfinite u then u else to_f32 exact_libs (Fin (- 9999)))"
    by blast
  then have a: "[Fin 10, Fin 10, Fin 20, Fin 10, Fin 10, Fin 20 :: fl] ! (0 * 3 + 2)
       = to_f32 exact_libs (Fin 20)"
    by (simp add: demo_grid_def exact_libs_sel)
  have k: "kd_query exact_libs [(Fin 0, Fin 0), (Fin 500, Fin 0)] (Fin 750, Fin (- 250)) = 1"
    by (simp add: exact_libs_sel)
  have b: "[Fin 10, Fin 10, Fin 10, Fin 10, Fin 10, Fin 10 :: fl] ! 5 = to_f32 exact_libs (Fin 10)"
    by (simp add: exact_libs_sel)
  show ?thesis
    using demo_grid_run demo_grid_run_one demo_cands(1,2) a k b d kd_nearest_exact_libs by simp
qed

section \<open>The errors of the gridding\<close>

lemma no_crs_simps [simp]:
  "no_crs (Inr x)" "no_crs (Inl (ValueError s))" "no_crs (Inl IndexError)"
  "no_crs (Inl OverflowError)" "no_crs (Inl TypeError)" "\<not> no_crs (Inl (CRSError n))"
  by (simp_all add: no_crs_def)

lemma no_crs_ebind: "no_crs m \<Longrightarrow> (\<And>x. no_crs (f x)) \<Longrightarrow> no_crs (ebind m f)"
  by (cases m) (simp_all add: no_crs_def)

lemma no_crs_nanmin: "no_crs (nanmin xs)" "no_crs (nanmax xs)"
  by (simp_all add: nanmin_def nanmax_def split: list.splits)

lemma no_crs_arange: "no_crs (arange r a b c)"
  by (simp add: arange_def split: fl.splits)

lemma no_crs_nearest_value: "no_crs (nearest_value L pts vals nd q)"
  by (simp add: nearest_value_def Let_def)

lemma no_crs_emap: "(\<And>x. no_crs (f x)) \<Longrightarrow> no_crs (emap f xs)"
  by (induction xs) (simp_all add: no_crs_ebind)

lemma no_crs_to_dataset: "no_crs (to_dataset n cs)"
  by (cases n) simp_all

lemma polar_to_grid_2d_valid_no_crs:
  assumes "from_epsg L epsg = Some t"
  shows "no_crs (polar_to_grid_2d L ds epsg dx dy buffer_m nodata)"
  unfolding polar_to_grid_2d_def
  by (simp add: assms Let_def split: prod.splits)
     (intro impI allI conjI no_crs_ebind no_crs_nanmin no_crs_arange no_crs_to_dataset
        no_crs_simps, auto intro!: no_crs_emap no_crs_nearest_value split: prod.splits)

lemma emap_total:
  assumes "\<And>x. x \<in> set xs \<Longrightarrow> \<exists>y. f x = Inr y"
  shows "\<exists>ys. emap f xs = Inr ys"
  using assms
proof (induction xs)
  case Nil
  then show ?case by simp
next
  case (Cons x xs)
  from Cons.prems[of x] obtain y where y: "f x = Inr y" by auto
  from Cons.IH Cons.prems obtain ys where ys: "emap f xs = Inr ys" by auto
  show ?case by (simp add: y ys)
qed

lemma polar_to_grid_2d_returns:
  assumes n: "ds_name ds \<notin> {PStr ''lon'', PStr ''lat'', PStr ''alt''}"
    and t: "from_epsg L epsg = Some t"
    and xy: "transform t (elems (ds_lon ds)) (elems (ds_lat ds)) = (X, Y)"
    and mm: "nanmin X = Inr xmin" "nanmax X = Inr xmax" "nanmin Y = Inr ymin" "nanmax Y = Inr ymax"
    and ax: "arange (rnd L) (fsub (rnd L) xmin buffer_m)
               (fadd (rnd L) (fadd (rnd L) xmax buffer_m) dx) dx = Inr xs"
    and ay: "arange (rnd L) (fsub (rnd L) ymin buffer_m)
               (fadd (rnd L) (fadd (rnd L) ymax buffer_m) dy) dy = Inr ys"
    and c: "candidates (elems (ds_values ds)) X Y = cands"
    and kd: "cands = [] \<or> (\<forall>q. kd_query L (map snd cands) q < length cands)"
    and td: "to_dataset (ds_name ds) [''x'', ''y''] = Inr ()"
  shows "\<exists>g. polar_to_grid_2d L ds epsg dx dy buffer_m nodata = Inr g
     \<and> g_x g = xs \<and> g_y g = ys \<and> shape (g_out g) = [length ys, length xs]
     \<and> (cands = [] \<longrightarrow>
           elems (g_out g) = replicate (length ys * length xs) (to_f32 L nodata))"
proof (cases "cands = []")
  case True
  show ?thesis
    unfolding polar_to_grid_2d_def
    using n by (simp add: t xy mm ax ay c True td Let_def)
next
  case False
  with kd have k: "\<And>q. kd_query L (map snd cands) q < length cands"
    by blast
  obtain XX YY where m: "meshgrid xs ys = (XX, YY)"
    by (cases "meshgrid xs ys") auto
  have "\<exists>out. emap (nearest_value L (map snd cands) (map fst cands) nodata)
          (zip (elems XX) (elems YY)) = Inr out"
    by (rule emap_total) (simp add: nearest_value_def Let_def k)
  then obtain out where o: "emap (nearest_value L (map snd cands) (map fst cands) nodata)
          (zip (elems XX) (elems YY)) = Inr out"
    by blast
  show ?thesis
    unfolding polar_to_grid_2d_def
    using n False by (simp add: t xy mm ax ay c td m o Let_def)
qed

lemma polar_to_grid_2d_variable_errors:
  assumes "ds_name ds \<notin> {PStr ''lon'', PStr ''lat'', PStr ''alt''}"
  shows "(polar_to_grid_2d L ds epsg dx dy buffer_m nodata = Inl (CRSError epsg)
            \<longleftrightarrow> from_epsg L epsg = None)
     \<and> (\<forall>n. polar_to_grid_2d L ds epsg dx dy buffer_m nodata = Inl (CRSError n)
            \<longrightarrow> n = epsg \<and> from_epsg L epsg = None)
     \<and> (\<forall>t X Y xmin xmax ymin ymax xs ys.
           from_epsg L epsg = Some t
           \<longrightarrow> transform t (elems (ds_lon ds)) (elems (ds_lat ds)) = (X, Y)
           \<longrightarrow> nanmin X = Inr xmin \<longrightarrow> nanmax X = Inr xmax
           \<longrightarrow> nanmin Y = Inr ymin \<longrightarrow> nanmax Y = Inr ymax
           \<longrightarrow> arange (rnd L) (fsub (rnd L) xmin buffer_m)
                 (fadd (rnd L) (fadd (rnd L) xmax buffer_m) dx) dx = Inr xs
           \<longrightarrow> arange (rnd L) (fsub (rnd L) ymin buffer_m)
                 (fadd (rnd L) (fadd (rnd L) ymax buffer_m) dy) dy = Inr ys
           \<longrightarrow> (candidates (elems (ds_values ds)) X Y = []
                 \<or> (\<forall>q. kd_query L (map snd (candidates (elems (ds_values ds)) X Y)) q
                          < length (candidates (elems (ds_values ds)) X Y)))
           \<longrightarrow> to_dataset (ds_name ds) [''x'', ''y''] = Inr ()
           \<longrightarrow> (\<exists>g. polar_to_grid_2d L ds epsg dx dy buffer_m nodata = Inr g
                  \<and> g_x g = xs \<and> g_y g = ys \<and> shape (g_out g) = [length ys, length xs]
                  \<and> (candidates (elems (ds_values ds)) X Y = [] \<longrightarrow>
                        elems (g_out g)
                          = replicate (length ys * length xs) (to_f32 L nodata))))"
proof -
  have 1: "polar_to_grid_2d L ds epsg dx dy buffer_m nodata = Inl (CRSError epsg)"
    if "from_epsg L epsg = None"
    using that assms by (simp add: polar_to_grid_2d_def)
  have 2: "n = epsg \<and> from_epsg L epsg = None"
    if r: "polar_to_grid_2d L ds epsg dx dy buffer_m nodata = Inl (CRSError n)" for n
  proof (cases "from_epsg L epsg")
    case None
    from 1[OF None] r show ?thesis
      by (simp add: None)
  next
    case (Some t)
    from polar_to_grid_2d_valid_no_crs[OF Some, of ds dx dy buffer_m nodata] r show ?thesis
      by simp
  qed
  have 3: "\<exists>g. polar_to_grid_2d L ds epsg dx dy buffer_m nodata = Inr g
                  \<and> g_x g = xs \<and> g_y g = ys \<and> shape (g_out g) = [length ys, length xs]
                  \<and> (candidates (elems (ds_values ds)) X Y = [] \<longrightarrow>
                        elems (g_out g)
                          = replicate (length ys * length xs) (to_f32 L nodata))"
    if "from_epsg L epsg = Some t"
      "transform t (elems (ds_lon ds)) (elems (ds_lat ds)) = (X, Y)"
      "nanmin X = Inr xmin" "nanmax X = Inr xmax" "nanmin Y = Inr ymin" "nanmax Y = Inr ymax"
      "arange (rnd L) (fsub (rnd L) xmin buffer_m)
                 (fadd (rnd L) (fadd (rnd L) xmax buffer_m) dx) dx = Inr xs"
      "arange (rnd L) (fsub (rnd L) ymin buffer_m)
                 (fadd (rnd L) (fadd (rnd L) ymax buffer_m) dy) dy = Inr ys"
      "candidates (elems (ds_values ds)) X Y = []
                 \<or> (\<forall>q. kd_query L (map snd (candidates (elems (ds_values ds)) X Y)) q
                          < length (candidates (elems (ds_values ds)) X Y))"
      "to_dataset (ds_name ds) [''x'', ''y''] = Inr ()"
    for t X Y xmin xmax ymin ymax xs ys
    using polar_to_grid_2d_returns[OF assms that(1-8) refl that(9,10)] .
  from 1 2 3 show ?thesis
    by blast
qed

text \<open>
  Claim C2, as amended. A dataset whose variable was named lon, lat or alt has no data
  variable left and the gridding raises IndexError. Otherwise the gridding raises the
  projection library's error, which carries the EPSG code, exactly when the library rejects
  the code; it never checks the domain of the coordinates. With a code the library accepts,
  once NumPy has computed the extent and built the two axes, the tree returns indices of
  candidates and the variable's name is accepted, the call returns a grid on these axes,
  filled with the sentinel when there is no candidate.
\<close>

theorem polar_to_grid_2d_errors:
  "(ds_name ds \<in> {PStr ''lon'', PStr ''lat'', PStr ''alt''}
      \<longrightarrow> polar_to_grid_2d L ds epsg dx dy buffer_m nodata = Inl IndexError)
   \<and> (ds_name ds \<notin> {PStr ''lon'', PStr ''lat'', PStr ''alt''} \<longrightarrow>
     (polar_to_grid_2d L ds epsg dx dy buffer_m nodata = Inl (CRSError epsg)
              \<longleftrightarrow> from_epsg L epsg = None)
       \<and> (\<forall>n. polar_to_grid_2d L ds epsg dx dy buffer_m nodata = Inl (CRSError n)
              \<longrightarrow> n = epsg \<and> from_epsg L epsg = None)
       \<and> (\<forall>t X Y xmin xmax ymin ymax xs ys.
             from_epsg L epsg = Some t
             \<longrightarrow> transform t (elems (ds_lon ds)) (elems (ds_lat ds)) = (X, Y)
             \<longrightarrow> nanmin X = Inr xmin \<longrightarrow> nanmax X = Inr xmax
             \<longrightarrow> nanmin Y = Inr ymin \<longrightarrow> nanmax Y = Inr ymax
             \<longrightarrow> arange (rnd L) (fsub (rnd L) xmin buffer_m)
                   (fadd (rnd L) (fadd (rnd L) xmax buffer_m) dx) dx = Inr xs
             \<longrightarrow> arange (rnd L) (fsub (rnd L) ymin buffer_m)
                   (fadd (rnd L) (fadd (rnd L) ymax buffer_m) dy) dy = Inr ys
             \<longrightarrow> (candidates (elems (ds_values ds)) X Y = []
                   \<or> (\<forall>q. kd_query L (map snd (candidates (elems (ds_values ds)) X Y)) q
                            < length (candidates (elems (ds_values ds)) X Y)))
             \<longrightarrow> to_dataset (ds_name ds) [''x'', ''y''] = Inr ()
             \<longrightarrow> (\<exists>g. polar_to_grid_2d L ds epsg dx dy buffer_m nodata = Inr g
                    \<and> g_x g = xs \<and> g_y g = ys \<and> shape (g_out g) = [length ys, length xs]
                    \<and> (candidates (elems (ds_values ds)) X Y = [] \<longrightarrow>
                          elems (g_out g)
                            = replicate (length ys * length xs) (to_f32 L nodata)))))"
proof (cases "ds_name ds \<in> {PStr ''lon'', PStr ''lat'', PStr ''alt''}")
  case True
  then have "polar_to_grid_2d L ds epsg dx dy buffer_m nodata = Inl IndexError"
    by (simp add: polar_to_grid_2d_def)
  with True show ?thesis by blast
next
  case False
  from polar_to_grid_2d_variable_errors[OF False, of L epsg dx dy buffer_m nodata] False
  show ?thesis by blast
qed

text \<open>
  The claim as stated fails: a sample outside the domain of the projection comes back from
  the library as infinities, and the call ends in a ValueError of \<open>np.arange\<close>, which is
  no projection error.
\<close>

theorem polar_to_grid_2d_errors_counterexample:
  "from_epsg exact_libs 32717 = Some demo_proj
   \<and> demo_proj (Fin 500) (Fin 95) = (PInf, PInf)
   \<and> polar_to_grid_2d exact_libs (demo_lonlat [Fin 10, Fin 20] [Fin 0, Fin 500] [Fin 0, Fin 95])
         32717 (Fin 500) (Fin 500) (Fin 250) (Fin (- 9999))
       = Inl (ValueError ''Maximum allowed size exceeded'')"
  using demo_grid_run_inf by (simp add: exact_libs_sel demo_proj_def)

theorem polar_to_grid_2d_errors_witness:
  "polar_to_grid_2d exact_libs
      ((demo_lonlat [NaN, PInf] [Fin 0, Fin 500] [Fin 0, Fin 0])\<lparr>ds_name := PStr ''lon''\<rparr>)
      32717 (Fin 500) (Fin 500) (Fin 250) (Fin (- 9999)) = Inl IndexError
   \<and> ds_name (demo_lonlat [NaN, PInf] [Fin 0, Fin 500] [Fin 0, Fin 0])
      \<notin> {PStr ''lon'', PStr ''lat'', PStr ''alt''}
   \<and> from_epsg exact_libs 1 = None
   \<and> polar_to_grid_2d exact_libs (demo_lonlat [NaN, PInf] [Fin 0, Fin 500] [Fin 0, Fin 0])
        1 (Fin 500) (Fin 500) (Fin 250) (Fin (- 9999)) = Inl (CRSError 1)
   \<and> from_epsg exact_libs 32717 = Some demo_proj
   \<and> candidates [NaN, PInf] [Fin 0, Fin 500] [Fin 0, Fin 0] = []
   \<and> (\<exists>g. polar_to_grid_2d exact_libs (demo_lonlat [NaN, PInf] [Fin 0, Fin 500] [Fin 0, Fin 0])
              32717 (Fin 500) (Fin 500) (Fin 250) (Fin (- 9999)) = Inr g
          \<and> g_x g = [Fin (- 250), Fin 250, Fin 750] \<and> g_y g = [Fin (- 250), Fin 250]
          \<and> shape (g_out g) = [2, 3]
          \<and> elems (g_out g) = replicate 6 (Fin (- 9999)))"
proof -
  let ?D = "demo_lonlat [NaN, PInf] [Fin 0, Fin 500] [Fin 0, Fin 0]"
  have n: "ds_name ?D \<notin> {PStr ''lon'', PStr ''lat'', PStr ''alt''}"
    by (simp add: demo_lonlat_def)
  note th0 = polar_to_grid_2d_errors[of "?D\<lparr>ds_name := PStr ''lon''\<rparr>" exact_libs 32717
      "Fin 500" "Fin 500" "Fin 250" "Fin (- 9999)", THEN conjunct1, THEN mp]
  have i: "polar_to_grid_2d exact_libs (?D\<lparr>ds_name := PStr ''lon''\<rparr>)
      32717 (Fin 500) (Fin 500) (Fin 250) (Fin (- 9999)) = Inl IndexError"
    by (rule th0) simp
  note th1 = polar_to_grid_2d_errors[of ?D exact_libs 1 "Fin 500" "Fin 500" "Fin 250" "Fin (- 9999)",
      THEN conjunct2, THEN mp, OF n]
  note th2 = polar_to_grid_2d_errors[of ?D exact_libs 32717 "Fin 500" "Fin 500" "Fin 250" "Fin (- 9999)",
      THEN conjunct2, THEN mp, OF n]
  have e1: "from_epsg exact_libs 1 = None"
    by (simp add: exact_libs_sel)
  from th1 e1 have a: "polar_to_grid_2d exact_libs ?D 1 (Fin 500) (Fin 500) (Fin 250) (Fin (- 9999))
      = Inl (CRSError 1)"
    by blast
  have t: "from_epsg exact_libs 32717 = Some demo_proj"
    by (simp add: exact_libs_sel)
  have x: "transform demo_proj (elems (ds_lon ?D)) (elems (ds_lat ?D)) = ([Fin 0, Fin 500], [Fin 0, Fin 0])"
    by (simp add: demo_lonlat_def demo_transform)
  have ax: "arange (rnd exact_libs) (fsub (rnd exact_libs) (Fin 0) (Fin 250))
              (fadd (rnd exact_libs) (fadd (rnd exact_libs) (Fin 500) (Fin 250)) (Fin 500)) (Fin 500)
            = Inr [Fin (- 250), Fin 250, Fin 750]"
    by (simp only: exact_libs_sel demo_extent_arith demo_axes)
  have ay: "arange (rnd exact_libs) (fsub (rnd exact_libs) (Fin 0) (Fin 250))
              (fadd (rnd exact_libs) (fadd (rnd exact_libs) (Fin 0) (Fin 250)) (Fin 500)) (Fin 500)
            = Inr [Fin (- 250), Fin 250]"
    by (simp only: exact_libs_sel demo_extent_arith demo_axes)
  have c: "candidates (elems (ds_values ?D)) [Fin 0, Fin 500] [Fin 0, Fin 0] = []"
    by (simp add: demo_lonlat_def demo_cands)
  have d: "to_dataset (ds_name ?D) [''x'', ''y''] = Inr ()"
    by (simp add: demo_lonlat_def)
  from th2 have "from_epsg exact_libs 32717 = Some demo_proj
           \<longrightarrow> transform demo_proj (elems (ds_lon ?D)) (elems (ds_lat ?D)) = ([Fin 0, Fin 500], [Fin 0, Fin 0])
           \<longrightarrow> nanmin [Fin 0, Fin 500] = Inr (Fin 0) \<longrightarrow> nanmax [Fin 0, Fin 500] = Inr (Fin 500)
           \<longrightarrow> nanmin [Fin 0, Fin 0] = Inr (Fin 0) \<longrightarrow> nanmax [Fin 0, Fin 0] = Inr (Fin 0)
           \<longrightarrow> arange (rnd exact_libs) (fsub (rnd exact_libs) (Fin 0) (Fin 250))
                 (fadd (rnd exact_libs) (fadd (rnd exact_libs) (Fin 500) (Fin 250)) (Fin 500)) (Fin 500)
                   = Inr [Fin (- 250), Fin 250, Fin 750]
           \<longrightarrow> arange (rnd exact_libs) (fsub (rnd exact_libs) (Fin 0) (Fin 250))
                 (fadd (rnd exact_libs) (fadd (rnd exact_libs) (Fin 0) (Fin 250)) (Fin 500)) (Fin 500)
                   = Inr [Fin (- 250), Fin 250]
           \<longrightarrow> (candidates (elems (ds_values ?D)) [Fin 0, Fin 500] [Fin 0, Fin 0] = []
                 \<or> (\<forall>q. kd_query exact_libs (map snd (candidates (elems (ds_values ?D)) [Fin 0, Fin 500] [Fin 0, Fin 0])) q
                          < length (candidates (elems (ds_values ?D)) [Fin 0, Fin 500] [Fin 0, Fin 0])))
           \<longrightarrow> to_dataset (ds_name ?D) [''x'', ''y''] = Inr ()
           \<longrightarrow> (\<exists>g. polar_to_grid_2d exact_libs ?D 32717 (Fin 500) (Fin 500) (Fin 250) (Fin (- 9999)) = Inr g
                  \<and> g_x g = [Fin (- 250), Fin 250, Fin 750] \<and> g_y g = [Fin (- 250), Fin 250]
                  \<and> shape (g_out g) = [length [Fin (- 250), Fin 250 :: fl], length [Fin (- 250), Fin 250, Fin 750 :: fl]]
                  \<and> (candidates (elems (ds_values ?D)) [Fin 0, Fin 500] [Fin 0, Fin 0] = [] \<longrightarrow>
                        elems (g_out g)
                          = replicate (length [Fin (- 250), Fin 250 :: fl] * length [Fin (- 250), Fin 250, Fin 750 :: fl])
                              (to_f32 exact_libs (Fin (- 9999)))))"
    by blast
  with t x demo_extent(1-4) ax ay c d
  have "\<exists>g. polar_to_grid_2d exact_libs ?D 32717 (Fin 500) (Fin 500) (Fin 250) (Fin (- 9999)) = Inr g
                  \<and> g_x g = [Fin (- 250), Fin 250, Fin 750] \<and> g_y g = [Fin (- 250), Fin 250]
                  \<and> shape (g_out g) = [length [Fin (- 250), Fin 250 :: fl], length [Fin (- 250), Fin 250, Fin 750 :: fl]]
                  \<and> elems (g_out g)
                          = replicate (length [Fin (- 250), Fin 250 :: fl] * length [Fin (- 250), Fin 250, Fin 750 :: fl])
                              (to_f32 exact_libs (Fin (- 9999)))"
    by blast
  then have b: "\<exists>g. polar_to_grid_2d exact_libs ?D 32717 (Fin 500) (Fin 500) (Fin 250) (Fin (- 9999)) = Inr g
          \<and> g_x g = [Fin (- 250), Fin 250, Fin 750] \<and> g_y g = [Fin (- 250), Fin 250]
          \<and> shape (g_out g) = [2, 3]
          \<and> elems (g_out g) = replicate 6 (Fin (- 9999))"
    by (simp add: exact_libs_sel numeral_eq_Suc)
  show ?thesis
    using i n e1 a t demo_cands(3) b by blast
qed

section \<open>The axes of the grid\<close>

lemma fle_total: "\<not> isnan x \<Longrightarrow> \<not> isnan y \<Longrightarrow> fle x y \<or> fle y x"
  by (cases x; cases y) auto

lemma fle_trans: "\<not> isnan y \<Longrightarrow> fle x y \<Longrightarrow> fle y z \<Longrightarrow> fle x z"
  by (cases x; cases y; cases z) auto

lemma fle_refl: "\<not> isnan x \<Longrightarrow> fle x x"
  by (cases x) auto

lemma foldl_fmin2:
  assumes "\<forall>z \<in> set (y # ys). \<not> isnan z"
  shows "foldl fmin2 y ys \<in> set (y # ys) \<and> (\<forall>z \<in> set (y # ys). fle (foldl fmin2 y ys) z)"
  using assms
proof (induction ys arbitrary: y)
  case Nil
  then show ?case by (simp add: fle_refl)
next
  case (Cons w ws)
  have nn: "\<not> isnan y" "\<not> isnan w" "\<forall>z \<in> set ws. \<not> isnan z"
    using Cons.prems by auto
  let ?u = "fmin2 y w"
  have u: "?u = y \<or> ?u = w"
    by (simp add: fmin2_def)
  then have un: "\<not> isnan ?u"
    using nn by auto
  have uy: "fle ?u y" and uw: "fle ?u w"
    using fle_total[OF nn(1,2)] nn by (auto simp: fmin2_def fle_refl)
  from Cons.IH[of ?u] un nn(3)
  have ih: "foldl fmin2 ?u ws \<in> set (?u # ws)"
    "\<forall>z \<in> set (?u # ws). fle (foldl fmin2 ?u ws) z"
    by auto
  have 1: "foldl fmin2 y (w # ws) \<in> set (y # w # ws)"
    using ih(1) u by auto
  have r: "fle (foldl fmin2 ?u ws) ?u"
    using ih(2) by simp
  have 2: "fle (foldl fmin2 y (w # ws)) z" if "z \<in> set (y # w # ws)" for z
  proof -
    from that consider "z = y" | "z = w" | "z \<in> set ws" by auto
    then show ?thesis
    proof cases
      case 1
      then show ?thesis using fle_trans[OF un r uy] by simp
    next
      case 2
      then show ?thesis using fle_trans[OF un r uw] by simp
    next
      case 3
      then show ?thesis using ih(2) by simp
    qed
  qed
  from 1 2 show ?case by blast
qed

lemma foldl_fmax2:
  assumes "\<forall>z \<in> set (y # ys). \<not> isnan z"
  shows "foldl fmax2 y ys \<in> set (y # ys) \<and> (\<forall>z \<in> set (y # ys). fle z (foldl fmax2 y ys))"
  using assms
proof (induction ys arbitrary: y)
  case Nil
  then show ?case by (simp add: fle_refl)
next
  case (Cons w ws)
  have nn: "\<not> isnan y" "\<not> isnan w" "\<forall>z \<in> set ws. \<not> isnan z"
    using Cons.prems by auto
  let ?u = "fmax2 y w"
  have u: "?u = y \<or> ?u = w"
    by (simp add: fmax2_def)
  then have un: "\<not> isnan ?u"
    using nn by auto
  have uy: "fle y ?u" and uw: "fle w ?u"
    using fle_total[OF nn(1,2)] nn by (auto simp: fmax2_def fle_refl)
  from Cons.IH[of ?u] un nn(3)
  have ih: "foldl fmax2 ?u ws \<in> set (?u # ws)"
    "\<forall>z \<in> set (?u # ws). fle z (foldl fmax2 ?u ws)"
    by auto
  have 1: "foldl fmax2 y (w # ws) \<in> set (y # w # ws)"
    using ih(1) u by auto
  have r: "fle ?u (foldl fmax2 ?u ws)"
    using ih(2) by simp
  have 2: "fle z (foldl fmax2 y (w # ws))" if "z \<in> set (y # w # ws)" for z
  proof -
    from that consider "z = y" | "z = w" | "z \<in> set ws" by auto
    then show ?thesis
    proof cases
      case 1
      then show ?thesis using fle_trans[OF un uy r] by simp
    next
      case 2
      then show ?thesis using fle_trans[OF un uw r] by simp
    next
      case 3
      then show ?thesis using ih(2) by simp
    qed
  qed
  from 1 2 show ?case by blast
qed

lemma arange_nonfinite:
  "\<not> isfinite (fdiv r (fsub r stop start) step)
     \<Longrightarrow> \<exists>s. arange r start stop step = Inl (ValueError s)"
  by (cases "fdiv r (fsub r stop start) step") (simp_all add: arange_def)

lemma arange_error: "arange r a b c = Inl e \<Longrightarrow> \<exists>s. e = ValueError s"
  by (auto simp: arange_def split: fl.splits if_splits)

lemma fadd_PInf_left: "z = PInf \<or> z = NaN \<Longrightarrow> fadd r z y = PInf \<or> fadd r z y = NaN"
  by (cases y) auto

lemma fadd_PInf_right: "z = PInf \<or> z = NaN \<Longrightarrow> fadd r y z = PInf \<or> fadd r y z = NaN"
  by (cases y) auto

lemma fadd_NInf_left: "z = NInf \<or> z = NaN \<Longrightarrow> fadd r z y = NInf \<or> fadd r z y = NaN"
  by (cases y) auto

lemma fsub_PInf_left: "z = PInf \<or> z = NaN \<Longrightarrow> fsub r z y = PInf \<or> fsub r z y = NaN"
  unfolding fsub_def by (rule fadd_PInf_left)

lemma fsub_NInf_left: "z = NInf \<or> z = NaN \<Longrightarrow> fsub r z y = NInf \<or> fsub r z y = NaN"
  unfolding fsub_def by (rule fadd_NInf_left)

lemma fsub_NInf_right: "z = NInf \<or> z = NaN \<Longrightarrow> fsub r y z = PInf \<or> fsub r y z = NaN"
  unfolding fsub_def by (rule fadd_PInf_right) auto

lemma fdiv_nonfinite: "z = PInf \<or> z = NaN \<Longrightarrow> \<not> isfinite (fdiv r z d)"
  by (cases d) (auto simp: finf_def split: if_splits)

lemma nanmax_PInf:
  assumes "PInf \<in> set X"
  shows "nanmax X = Inr PInf"
proof -
  let ?f = "filter (\<lambda>x. \<not> isnan x) X"
  from assms have p: "PInf \<in> set ?f" by simp
  then obtain y ys where f: "?f = y # ys" by (cases ?f) auto
  have nn: "\<forall>z \<in> set (y # ys). \<not> isnan z"
    unfolding f[symmetric] by simp
  from foldl_fmax2[OF nn] p[unfolded f] have "fle PInf (foldl fmax2 y ys)"
    by blast
  then have "foldl fmax2 y ys = PInf"
    by (cases "foldl fmax2 y ys") simp_all
  with assms f show ?thesis
    by (auto simp: nanmax_def)
qed

lemma nanmin_NInf:
  assumes "NInf \<in> set X"
  shows "nanmin X = Inr NInf"
proof -
  let ?f = "filter (\<lambda>x. \<not> isnan x) X"
  from assms have p: "NInf \<in> set ?f" by simp
  then obtain y ys where f: "?f = y # ys" by (cases ?f) auto
  have nn: "\<forall>z \<in> set (y # ys). \<not> isnan z"
    unfolding f[symmetric] by simp
  from foldl_fmin2[OF nn] p[unfolded f] have "fle (foldl fmin2 y ys) NInf"
    by blast
  then have "foldl fmin2 y ys = NInf"
    by (cases "foldl fmin2 y ys") simp_all
  with assms f show ?thesis
    by (auto simp: nanmin_def)
qed

lemma axis_infinite:
  assumes c: "c \<in> set X" "c = PInf \<or> c = NInf"
    and mn: "nanmin X = Inr xmin" and mx: "nanmax X = Inr xmax"
  shows "\<exists>s. arange r (fsub r xmin b) (fadd r (fadd r xmax b) d) d = Inl (ValueError s)"
proof -
  have "fsub r (fadd r (fadd r xmax b) d) (fsub r xmin b) = PInf
      \<or> fsub r (fadd r (fadd r xmax b) d) (fsub r xmin b) = NaN"
  proof (cases "c = PInf")
    case True
    with c nanmax_PInf[of X] mx have "xmax = PInf" by simp
    then show ?thesis
      by (intro fsub_PInf_left fadd_PInf_left) simp
  next
    case False
    with c have "NInf \<in> set X" by auto
    with nanmin_NInf[of X] mn have "xmin = NInf" by simp
    then show ?thesis
      by (intro fsub_NInf_right fsub_NInf_left) simp
  qed
  then show ?thesis
    by (intro arange_nonfinite fdiv_nonfinite)
qed

lemma demo_grid_run_inf3:
  "polar_to_grid_2d exact_libs
     (demo_lonlat [Fin 10, Fin 20, Fin 30] [Fin 0, Fin 500, Fin 1000] [Fin 0, Fin 0, Fin 95])
     32717 (Fin 500) (Fin 500) (Fin 250) (Fin (- 9999))
   = Inl (ValueError ''Maximum allowed size exceeded'')"
proof -
  have t: "transform demo_proj [Fin 0, Fin 500, Fin 1000] [Fin 0, Fin 0, Fin 95]
        = ([Fin 0, Fin 500, PInf], [Fin 0, Fin 0, PInf])"
    by (simp add: transform_def demo_proj_def)
  have e: "nanmin [Fin 0, Fin 500, PInf] = Inr (Fin 0)" "nanmax [Fin 0, Fin 500, PInf] = Inr PInf"
    "nanmin [Fin 0, Fin 0, PInf] = Inr (Fin 0)" "nanmax [Fin 0, Fin 0, PInf] = Inr PInf"
    by (simp_all add: nanmin_def nanmax_def fmin2_def fmax2_def)
  show ?thesis
    unfolding polar_to_grid_2d_def
    by (simp add: demo_lonlat_def exact_libs_sel t e arange_def fsub_def finf_def)
qed

text \<open>
  Claim C5 says that for every input with at least one finite projected coordinate the axes
  are built from the bounding box of the finite projected coordinates, expanded by the
  buffer. The code takes the extent with \<open>nanmin\<close> and \<open>nanmax\<close>, which skip NaN but not
  the infinities, although the candidates, a few lines below, are selected with
  \<open>isfinite\<close>. So one infinite projected coordinate, among any number of finite ones, makes
  the extent infinite and \<open>np.arange\<close> raise ValueError: no axis is built, whatever the
  buffer and the steps.
\<close>

theorem polar_to_grid_2d_axes:
  assumes n: "ds_name ds \<notin> {PStr ''lon'', PStr ''lat'', PStr ''alt''}"
    and t: "from_epsg L epsg = Some t"
    and xy: "transform t (elems (ds_lon ds)) (elems (ds_lat ds)) = (X, Y)"
    and c: "c \<in> set X \<union> set Y" "c = PInf \<or> c = NInf"
  shows "\<exists>s. polar_to_grid_2d L ds epsg dx dy buffer_m nodata = Inl (ValueError s)"
proof -
  from c(1) transform_length[OF xy] have ne: "X \<noteq> []" "Y \<noteq> []"
    by auto
  from nanmin_nonempty[OF ne(1)] nanmax_nonempty[OF ne(1)]
    nanmin_nonempty[OF ne(2)] nanmax_nonempty[OF ne(2)]
  obtain xmin xmax ymin ymax where
    mm: "nanmin X = Inr xmin" "nanmax X = Inr xmax" "nanmin Y = Inr ymin" "nanmax Y = Inr ymax"
    by blast
  let ?ax = "arange (rnd L) (fsub (rnd L) xmin buffer_m)
               (fadd (rnd L) (fadd (rnd L) xmax buffer_m) dx) dx"
  let ?ay = "arange (rnd L) (fsub (rnd L) ymin buffer_m)
               (fadd (rnd L) (fadd (rnd L) ymax buffer_m) dy) dy"
  have r: "polar_to_grid_2d L ds epsg dx dy buffer_m nodata = Inl e" if "?ax = Inl e" for e
    unfolding polar_to_grid_2d_def using n that by (simp add: t xy mm Let_def)
  have r2: "polar_to_grid_2d L ds epsg dx dy buffer_m nodata = Inl e"
    if "?ax = Inr xs" "?ay = Inl e" for e xs
    unfolding polar_to_grid_2d_def using n that by (simp add: t xy mm Let_def)
  show ?thesis
  proof (cases "c \<in> set X")
    case True
    from axis_infinite[OF True c(2) mm(1,2)] obtain s where "?ax = Inl (ValueError s)"
      by blast
    from r[OF this] show ?thesis by blast
  next
    case False
    with c have cy: "c \<in> set Y" by simp
    from axis_infinite[OF cy c(2) mm(3,4)] obtain s where ay: "?ay = Inl (ValueError s)"
      by blast
    show ?thesis
    proof (cases ?ax)
      case (Inl e)
      from arange_error[OF Inl] r[OF Inl] show ?thesis by blast
    next
      case (Inr xs)
      from r2[OF Inr ay] show ?thesis by blast
    qed
  qed
qed

theorem polar_to_grid_2d_axes_witness:
  "ds_name (demo_lonlat [Fin 10, Fin 20, Fin 30] [Fin 0, Fin 500, Fin 1000] [Fin 0, Fin 0, Fin 95])
     \<notin> {PStr ''lon'', PStr ''lat'', PStr ''alt''}
   \<and> from_epsg exact_libs 32717 = Some demo_proj
   \<and> transform demo_proj [Fin 0, Fin 500, Fin 1000] [Fin 0, Fin 0, Fin 95]
     = ([Fin 0, Fin 500, PInf], [Fin 0, Fin 0, PInf])
   \<and> PInf \<in> set [Fin 0, Fin 500, PInf] \<union> set [Fin 0, Fin 0, PInf]
   \<and> candidates [Fin 10, Fin 20, Fin 30] [Fin 0, Fin 500, PInf] [Fin 0, Fin 0, PInf]
     = [(Fin 10, Fin 0, Fin 0), (Fin 20, Fin 500, Fin 0)]
   \<and> (\<exists>s. polar_to_grid_2d exact_libs
       (demo_lonlat [Fin 10, Fin 20, Fin 30] [Fin 0, Fin 500, Fin 1000] [Fin 0, Fin 0, Fin 95])
       32717 (Fin 500) (Fin 500) (Fin 250) (Fin (- 9999)) = Inl (ValueError s))
   \<and> polar_to_grid_2d exact_libs
       (demo_lonlat [Fin 10, Fin 20, Fin 30] [Fin 0, Fin 500, Fin 1000] [Fin 0, Fin 0, Fin 95])
       32717 (Fin 500) (Fin 500) (Fin 250) (Fin (- 9999))
     = Inl (ValueError ''Maximum allowed size exceeded'')"
proof -
  let ?D = "demo_lonlat [Fin 10, Fin 20, Fin 30] [Fin 0, Fin 500, Fin 1000] [Fin 0, Fin 0, Fin 95]"
  have n: "ds_name ?D \<notin> {PStr ''lon'', PStr ''lat'', PStr ''alt''}"
    by (simp add: demo_lonlat_def)
  have t: "from_epsg exact_libs 32717 = Some demo_proj"
    by (simp add: exact_libs_sel)
  have x: "transform demo_proj [Fin 0, Fin 500, Fin 1000] [Fin 0, Fin 0, Fin 95]
        = ([Fin 0, Fin 500, PInf], [Fin 0, Fin 0, PInf])"
    by (simp add: transform_def demo_proj_def)
  have x': "transform demo_proj (elems (ds_lon ?D)) (elems (ds_lat ?D))
        = ([Fin 0, Fin 500, PInf], [Fin 0, Fin 0, PInf])"
    by (simp add: demo_lonlat_def x)
  have c: "PInf \<in> set [Fin 0, Fin 500, PInf] \<union> set [Fin 0, Fin 0, PInf]"
    by simp
  have k: "candidates [Fin 10, Fin 20, Fin 30] [Fin 0, Fin 500, PInf] [Fin 0, Fin 0, PInf]
     = [(Fin 10, Fin 0, Fin 0), (Fin 20, Fin 500, Fin 0)]"
    by (simp add: candidates_def)
  have e: "\<exists>s. polar_to_grid_2d exact_libs ?D 32717 (Fin 500) (Fin 500) (Fin 250) (Fin (- 9999))
       = Inl (ValueError s)"
    by (rule polar_to_grid_2d_axes[OF n t x' c]) simp
  from n t x c k e demo_grid_run_inf3 show ?thesis
    by (intro conjI)
qed

end
